theory Spec2Isabelle
  imports Main "HOL-Library.Word" "HOL-Library.Signed_Division"
begin

section \<open>Errors and faults\<close>

text \<open>
  Go's \<^verbatim>\<open>error\<close> values that the package produces or passes on:
  \<^verbatim>\<open>io.ErrShortWrite\<close>, the package's \<^verbatim>\<open>ErrClosed\<close>, and any other error
  (of a sink, of a buffer factory), identified by its message. A nil error is
  \<open>None\<close>.
\<close>

datatype error = ErrShortWrite | ErrClosed | Err string

text \<open>
  A run-time panic of Go: a slice expression whose bounds are out of range, a method
  called on a nil interface or dereferencing a nil receiver, an integer division by zero.
\<close>

datatype fault = SliceBounds | NilDeref | DivideByZero

type_synonym byte = char

section \<open>rollout.go: constants and data\<close>

text \<open>
  Go's \<^verbatim>\<open>int\<close> and \<^verbatim>\<open>int64\<close> are 64-bit two's complement integers (a 64-bit
  platform): \<open>+\<close> and \<open>*\<close> wrap around, comparisons are signed (\<open>\<le>s\<close>), and
  \<^verbatim>\<open>/\<close> truncates towards zero and panics on a zero divisor.
\<close>

type_synonym int64 = "64 word"

definition RotateSecondly :: int64 where
  "RotateSecondly = 1"

definition RotateMinutely :: int64 where
  "RotateMinutely = 60 * RotateSecondly"

definition RotateHourly :: int64 where
  "RotateHourly = 60 * RotateMinutely"

definition RotateDaily :: int64 where
  "RotateDaily = 24 * RotateHourly"

definition RotateWeekly :: int64 where
  "RotateWeekly = 7 * RotateDaily"

definition defaultBufferSize :: int where
  "defaultBufferSize = 4096"

definition defaultDestTamplate :: string where
  "defaultDestTamplate = ''rollout-{{.Time}}.log''"

definition defaultTimeFormat :: string where
  "defaultTimeFormat = ''2006-01-02''"

definition defaultFlushInterval :: int64 where
  "defaultFlushInterval = 10"

definition defaultKeeps :: int64 where
  "defaultKeeps = 30"

text \<open>
  \<^verbatim>\<open>type Options struct\<close>, without its two function fields: \<^verbatim>\<open>Clock\<close> and
  \<^verbatim>\<open>BufferFunc\<close> are the \<open>clock\<close> and \<open>bufferFunc\<close> of the environment
  below (whichever functions were configured, the defaults included).
\<close>

record Options =
  Template :: string
  TimeFormat :: string
  Root :: string
  Rotation :: int64
  Keeps :: int64
  BufferSize :: int64
  Flush :: int64

text \<open>
  \<^verbatim>\<open>type rolloutBuffer struct { Buffer; pos int }\<close>: the embedded interface value
  (\<open>None\<close> is the nil interface) and the bucket it was created for.
\<close>

record 'b rolloutBuffer =
  Buffer :: "'b option"
  pos :: int64

text \<open>
  \<^verbatim>\<open>type Rollout struct\<close>. The pointer fields \<open>template\<close> and \<open>buf\<close> are
  options (\<open>None\<close> is nil). The lock \<open>mux\<close> is not modelled: every operation
  below is one sequential call.
\<close>

record ('b, 'tpl) Rollout =
  bufferSize :: int64
  flushInterval :: int64
  interval :: int64
  root :: string
  template :: "'tpl option"
  timeFormat :: string
  keeps :: int64
  zoneOffset :: int64
  buf :: "'b rolloutBuffer option"
  closed :: bool

section \<open>buffer.go: BufferWriter\<close>

text \<open>
  An \<^verbatim>\<open>io.Writer\<close> is an object with a state \<open>'s\<close> and a method
  \<^verbatim>\<open>Write(p []byte) (n int, err error)\<close>: the method is a function from the state
  and the bytes to the returned pair and the new state. The sink is outside the
  repository, so its method is a parameter \<open>W\<close> of every operation.
\<close>

type_synonym 's writer = "'s \<Rightarrow> byte list \<Rightarrow> (int \<times> error option) \<times> 's"

text \<open>
  \<^verbatim>\<open>type BufferWriter struct { err error; buf []byte; n int; wr io.Writer }\<close>.
  The field \<open>wr\<close> holds the state of the sink. The counts \<open>n\<close> and the
  lengths are unbounded integers: they stay between 0 and the length of a slice as long
  as the sink returns counts between 0 and the length of what it was given.
\<close>

record 's BufferWriter =
  err :: "error option"
  buf :: "byte list"
  n :: int
  wr :: 's

text \<open>
  \<^verbatim>\<open>NewWriterSize(w, size)\<close> for a sink \<open>w\<close> that is not itself a
  \<^verbatim>\<open>*BufferWriter\<close> (the type assertion fails): a zeroed buffer of \<open>size\<close> bytes,
  of the default size when \<open>size \<le> 0\<close>.
\<close>

definition NewWriterSize :: "'s \<Rightarrow> int \<Rightarrow> 's BufferWriter" where
  "NewWriterSize w sz =
     (let sz' = (if sz \<le> 0 then defaultBufferSize else sz)
      in \<lparr>err = None, buf = replicate (nat sz') (CHR 0x00), n = 0, wr = w\<rparr>)"

definition Available :: "'s BufferWriter \<Rightarrow> int" where
  "Available b = int (length (buf b)) - n b"

definition Buffered :: "'s BufferWriter \<Rightarrow> int" where
  "Buffered b = n b"

text \<open>
  Go's builtin \<^verbatim>\<open>copy(dst[off:], src)\<close>: it copies
  \<open>min (len dst - off) (len src)\<close> bytes and returns that number; the rest of
  \<open>dst\<close> is unchanged. Source and destination may overlap (the source is read
  before the destination is written).
\<close>

definition copy_at :: "byte list \<Rightarrow> nat \<Rightarrow> byte list \<Rightarrow> nat \<times> byte list" where
  "copy_at dst off src =
     (let k = min (length dst - off) (length src)
      in (k, take off dst @ take k src @ drop (off + k) dst))"

text \<open>
  \<^verbatim>\<open>func (b *BufferWriter) Flush() error\<close>. The slice expression
  \<^verbatim>\<open>b.buf[0:b.n]\<close> panics when \<open>b.n\<close> is negative or beyond the capacity.
  The compaction \<^verbatim>\<open>copy(b.buf[0:b.n-n], b.buf[n:b.n])\<close> runs only for
  \<open>0 < n < b.n\<close>, where both slices have \<open>b.n - n\<close> bytes.
\<close>

definition BufferWriter_Flush :: "'s writer \<Rightarrow> 's BufferWriter \<Rightarrow> fault + (error option \<times> 's BufferWriter)" where
  "BufferWriter_Flush W b =
     (if err b \<noteq> None then Inr (err b, b)
      else if n b = 0 then Inr (None, b)
      else if n b < 0 \<or> int (length (buf b)) < n b then Inl SliceBounds
      else
        (case W (wr b) (take (nat (n b)) (buf b)) of ((k, e), s) \<Rightarrow>
           let e' = (if k < n b \<and> e = None then Some ErrShortWrite else e)
           in if e' \<noteq> None then
                let buf' = (if 0 < k \<and> k < n b
                            then snd (copy_at (buf b) 0 (take (nat (n b - k)) (drop (nat k) (buf b))))
                            else buf b)
                in Inr (e', b\<lparr>err := e', buf := buf', n := n b - k, wr := s\<rparr>)
              else Inr (None, b\<lparr>n := 0, wr := s\<rparr>)))"

text \<open>
  The loop of \<^verbatim>\<open>Write\<close>:
  \<^verbatim>\<open>for len(p) > 0 { n = copy(b.buf[b.n:], p); b.n += n; b.Flush(); nn += n; p = p[n:] }\<close>.
  The result of \<^verbatim>\<open>b.Flush()\<close> is dropped. The loop may run forever, so it is a
  partial function: \<open>None\<close> is a run that never returns. \<^verbatim>\<open>b.buf[b.n:]\<close>
  panics when \<open>b.n\<close> is out of range.
\<close>

partial_function (option) Write_loop ::
  "'s writer \<Rightarrow> 's BufferWriter \<Rightarrow> byte list \<Rightarrow> int \<Rightarrow> (fault + (int \<times> 's BufferWriter)) option" where
  "Write_loop W b p nn =
     (if length p > 0 then
        (if n b < 0 \<or> int (length (buf b)) < n b then Some (Inl SliceBounds)
         else
           (case copy_at (buf b) (nat (n b)) p of (k, buf') \<Rightarrow>
              (case BufferWriter_Flush W (b\<lparr>buf := buf', n := n b + int k\<rparr>) of
                 Inl f \<Rightarrow> Some (Inl f)
               | Inr (_, b') \<Rightarrow> Write_loop W b' (drop k p) (nn + int k))))
      else Some (Inr (nn, b)))"

text \<open>
  \<^verbatim>\<open>func (b *BufferWriter) Write(p []byte) (nn int, err error)\<close>. The result is
  \<open>None\<close> when the call never returns, a fault when it panics, and otherwise the
  returned pair with the writer after the call.
\<close>

definition BufferWriter_Write ::
  "'s writer \<Rightarrow> 's BufferWriter \<Rightarrow> byte list \<Rightarrow> (fault + ((int \<times> error option) \<times> 's BufferWriter)) option" where
  "BufferWriter_Write W b p =
     (if int (length p) > Available b \<and> err b = None then
        (if Buffered b = 0 then
           (case W (wr b) p of ((k, e), s) \<Rightarrow> Some (Inr ((k, e), b\<lparr>err := e, wr := s\<rparr>)))
         else
           (case Write_loop W b p 0 of
              None \<Rightarrow> None
            | Some (Inl f) \<Rightarrow> Some (Inl f)
            | Some (Inr (nn, b')) \<Rightarrow> Some (Inr ((nn, err b'), b'))))
      else if n b < 0 \<or> int (length (buf b)) < n b then Some (Inl SliceBounds)
      else
        (case copy_at (buf b) (nat (n b)) p of (k, buf') \<Rightarrow>
           Some (Inr ((int k, None), b\<lparr>buf := buf', n := n b + int k\<rparr>))))"

declare Write_loop.simps [code]

section \<open>What rollout.go calls: the standard library and the configured functions\<close>

text \<open>
  The functions of Go's standard library that rollout.go calls are parameters, collected
  in a record \<open>L\<close>, with the two process-wide values \<open>host\<close> and \<open>pid\<close>
  that \<^verbatim>\<open>init()\<close> computes:
  \<^item> \<open>time_Unix\<close>, \<open>time_Zone\<close>, \<open>time_Format\<close>: the methods
    \<^verbatim>\<open>Unix\<close>, \<^verbatim>\<open>Zone\<close> and \<^verbatim>\<open>Format\<close> of \<^verbatim>\<open>time.Time\<close>;
  \<^item> \<open>template_New\<close>, \<open>template_Parse\<close>, \<open>template_Execute\<close>:
    \<^verbatim>\<open>template.New\<close> and the methods \<^verbatim>\<open>Parse\<close> and \<^verbatim>\<open>Execute\<close> of
    \<^verbatim>\<open>*template.Template\<close>. The receiver is a pointer and may be nil, and a method
    may panic. \<open>template_Parse\<close> gives the returned pair (pointer, error);
    \<open>template_Execute\<close> gives the bytes written to the output buffer (its error is
    dropped by the caller);
  \<^item> \<open>filepath_Join\<close>: \<^verbatim>\<open>filepath.Join\<close>.
\<close>

datatype tvalue = IntVal int | StrVal string

record ('t, 'tpl) stdlib =
  time_Unix :: "'t \<Rightarrow> int64"
  time_Zone :: "'t \<Rightarrow> string \<times> int64"
  time_Format :: "'t \<Rightarrow> string \<Rightarrow> string"
  template_New :: "string \<Rightarrow> 'tpl"
  template_Parse :: "'tpl option \<Rightarrow> string \<Rightarrow> fault + ('tpl option \<times> error option)"
  template_Execute :: "'tpl option \<Rightarrow> (string \<times> tvalue) list \<Rightarrow> fault + string"
  filepath_Join :: "string list \<Rightarrow> string"
  host :: string
  pid :: int

text \<open>
  The functions a \<^verbatim>\<open>Rollout\<close> is configured with, and the methods of the
  \<^verbatim>\<open>Buffer\<close> interface (\<^verbatim>\<open>Write\<close>, \<^verbatim>\<open>Flush\<close>, \<^verbatim>\<open>Close\<close>), are
  parameters too, collected in a record \<open>E\<close>. They act on a world \<open>'w\<close> (the
  files, the mock's call log, the clock's state), which every call takes and returns.
  \<open>clock\<close> is \<^verbatim>\<open>r.clock\<close>; \<open>bufferFunc\<close> is \<^verbatim>\<open>r.bufferFunc\<close> and
  gives the returned pair (Buffer, error). The methods are assumed to return.
\<close>

record ('b, 't, 'w) env =
  clock :: "'w \<Rightarrow> 't \<times> 'w"
  bufferFunc :: "string \<Rightarrow> int64 \<Rightarrow> int64 \<Rightarrow> 'w \<Rightarrow> ('b option \<times> error option) \<times> 'w"
  Buffer_Write :: "'b \<Rightarrow> byte list \<Rightarrow> 'w \<Rightarrow> (int \<times> error option) \<times> 'w"
  Buffer_Flush :: "'b \<Rightarrow> 'w \<Rightarrow> error option \<times> 'w"
  Buffer_Close :: "'b \<Rightarrow> 'w \<Rightarrow> error option \<times> 'w"

section \<open>rollout.go: Rollout\<close>

text \<open>
  \<^verbatim>\<open>func (r *Rollout) position(t time.Time) int\<close>:
  \<^verbatim>\<open>timestamp := int(t.Unix()); if r.interval >= RotateDaily { timestamp += r.zoneOffset };
  return timestamp / r.interval\<close>.
\<close>

definition go_quot :: "int64 \<Rightarrow> int64 \<Rightarrow> fault + int64" where
  "go_quot a d = (if d = 0 then Inl DivideByZero else Inr (word_of_int (sint a sdiv sint d)))"

definition position :: "('t, 'tpl) stdlib \<Rightarrow> ('b, 'tpl) Rollout \<Rightarrow> 't \<Rightarrow> fault + int64" where
  "position L r t =
     (let timestamp = time_Unix L t;
          timestamp' = (if RotateDaily \<le>s interval r then timestamp + zoneOffset r else timestamp)
      in go_quot timestamp' (interval r))"

text \<open>
  \<^verbatim>\<open>func (r *Rollout) destination(t time.Time) string\<close>: the template is executed
  on the map of \<^verbatim>\<open>Pid\<close>, \<^verbatim>\<open>Host\<close> and \<^verbatim>\<open>Time\<close>, and what it wrote is
  joined to the root.
\<close>

definition destination :: "('t, 'tpl) stdlib \<Rightarrow> ('b, 'tpl) Rollout \<Rightarrow> 't \<Rightarrow> fault + string" where
  "destination L r t =
     (case template_Execute L (template r)
             [(''Pid'', IntVal (pid L)), (''Host'', StrVal (host L)),
              (''Time'', StrVal (time_Format L t (timeFormat r)))] of
        Inl f \<Rightarrow> Inl f
      | Inr out \<Rightarrow> Inr (filepath_Join L [root r, out]))"

text \<open>
  \<^verbatim>\<open>func New(options Options) *Rollout\<close>. The variable \<^verbatim>\<open>tpl\<close> is assigned the
  pointer that the first \<^verbatim>\<open>Parse\<close> returns, and the second \<^verbatim>\<open>Parse\<close> (of the
  default template, after an error) is called on that pointer. The clock is called once,
  for the zone offset.
\<close>

definition New ::
  "('t, 'tpl) stdlib \<Rightarrow> ('b, 't, 'w) env \<Rightarrow> Options \<Rightarrow> 'w \<Rightarrow> fault + (('b, 'tpl) Rollout \<times> 'w)" where
  "New L E options w =
     (let Rotation' = (if Rotation options \<le>s 0 then RotateDaily else Rotation options);
          Template' = (if Template options = [] then defaultDestTamplate else Template options);
          TimeFormat' = (if TimeFormat options = [] then defaultTimeFormat else TimeFormat options);
          BufferSize' = (if BufferSize options \<le>s 0 then word_of_int defaultBufferSize
                         else BufferSize options);
          Flush' = (if Options.Flush options \<le>s 0 then defaultFlushInterval else Options.Flush options)
      in case template_Parse L (Some (template_New L ''package.rollout.filename'')) Template' of
           Inl f \<Rightarrow> Inl f
         | Inr (tpl, e) \<Rightarrow>
             (case (if e \<noteq> None
                    then (case template_Parse L tpl defaultDestTamplate of
                            Inl f \<Rightarrow> Inl f
                          | Inr (tpl', _) \<Rightarrow> Inr tpl')
                    else Inr tpl) of
                Inl f \<Rightarrow> Inl f
              | Inr tpl'' \<Rightarrow>
                  (case clock E w of (now, w') \<Rightarrow>
                     Inr (\<lparr>bufferSize = BufferSize',
                           flushInterval = Flush' * 1000000000,
                           interval = Rotation',
                           root = Root options,
                           template = tpl'',
                           timeFormat = TimeFormat',
                           keeps = Keeps options,
                           zoneOffset = snd (time_Zone L now),
                           Rollout.buf = None,
                           closed = False\<rparr>, w'))))"

text \<open>
  A method called through the embedded interface value: a nil interface panics.
\<close>

definition call_Write ::
  "('b, 't, 'w) env \<Rightarrow> 'b option \<Rightarrow> byte list \<Rightarrow> 'w \<Rightarrow> fault + ((int \<times> error option) \<times> 'w)" where
  "call_Write E bo p w = (case bo of None \<Rightarrow> Inl NilDeref | Some b \<Rightarrow> Inr (Buffer_Write E b p w))"

definition call_Flush :: "('b, 't, 'w) env \<Rightarrow> 'b option \<Rightarrow> 'w \<Rightarrow> fault + (error option \<times> 'w)" where
  "call_Flush E bo w = (case bo of None \<Rightarrow> Inl NilDeref | Some b \<Rightarrow> Inr (Buffer_Flush E b w))"

definition call_Close :: "('b, 't, 'w) env \<Rightarrow> 'b option \<Rightarrow> 'w \<Rightarrow> fault + (error option \<times> 'w)" where
  "call_Close E bo w = (case bo of None \<Rightarrow> Inl NilDeref | Some b \<Rightarrow> Inr (Buffer_Close E b w))"

text \<open>
  \<^verbatim>\<open>func (r *Rollout) Write(p []byte) (n int, err error)\<close>. The result is a panic, or
  the returned pair with the writer and the world after the call. The result of
  \<^verbatim>\<open>old.Close()\<close> is dropped.
\<close>

definition Rollout_Write ::
  "('t, 'tpl) stdlib \<Rightarrow> ('b, 't, 'w) env \<Rightarrow> ('b, 'tpl) Rollout \<Rightarrow> byte list \<Rightarrow> 'w
     \<Rightarrow> fault + (((int \<times> error option) \<times> ('b, 'tpl) Rollout) \<times> 'w)" where
  "Rollout_Write L E r p w =
     (if closed r then Inr (((0, Some ErrClosed), r), w)
      else
        (case clock E w of (now, w1) \<Rightarrow>
           (case position L r now of
              Inl f \<Rightarrow> Inl f
            | Inr ps \<Rightarrow>
                (if Rollout.buf r = None \<or> pos (the (Rollout.buf r)) \<noteq> ps then
                   (case destination L r now of
                      Inl f \<Rightarrow> Inl f
                    | Inr dest \<Rightarrow>
                        (case bufferFunc E dest (bufferSize r) (flushInterval r) w1 of
                           ((nb, e), w2) \<Rightarrow>
                             if e \<noteq> None then Inr (((0, e), r), w2)
                             else
                               (let old = Rollout.buf r;
                                    r' = r\<lparr>Rollout.buf := Some \<lparr>Buffer = nb, pos = ps\<rparr>\<rparr>
                                in case (case old of
                                           None \<Rightarrow> Inr w2
                                         | Some ob \<Rightarrow> map_sum id snd (call_Close E (Buffer ob) w2)) of
                                     Inl f \<Rightarrow> Inl f
                                   | Inr w3 \<Rightarrow>
                                       map_sum id (\<lambda>(res, w4). ((res, r'), w4))
                                         (call_Write E nb p w3))))
                 else
                   map_sum id (\<lambda>(res, w2). ((res, r), w2))
                     (call_Write E (Buffer (the (Rollout.buf r))) p w1)))))"

text \<open>\<^verbatim>\<open>func (r *Rollout) Flush() error\<close>.\<close>

definition Rollout_Flush ::
  "('b, 't, 'w) env \<Rightarrow> ('b, 'tpl) Rollout \<Rightarrow> 'w \<Rightarrow> fault + ((error option \<times> ('b, 'tpl) Rollout) \<times> 'w)" where
  "Rollout_Flush E r w =
     (case Rollout.buf r of
        None \<Rightarrow> Inr ((None, r), w)
      | Some rb \<Rightarrow> map_sum id (\<lambda>(e, w'). ((e, r), w')) (call_Flush E (Buffer rb) w))"

text \<open>\<^verbatim>\<open>func (r *Rollout) Close() error\<close>.\<close>

definition Rollout_Close ::
  "('b, 't, 'w) env \<Rightarrow> ('b, 'tpl) Rollout \<Rightarrow> 'w \<Rightarrow> fault + ((error option \<times> ('b, 'tpl) Rollout) \<times> 'w)" where
  "Rollout_Close E r w =
     (if closed r then Inr ((None, r), w)
      else
        (let r' = r\<lparr>closed := True\<rparr>
         in case Rollout.buf r' of
              None \<Rightarrow> Inr ((None, r'), w)
            | Some rb \<Rightarrow> map_sum id (\<lambda>(e, w'). ((e, r'), w')) (call_Close E (Buffer rb) w)))"

text \<open>
  The invariant of a \<^verbatim>\<open>BufferWriter\<close>: the count is within the buffer. And the
  contract of \<^verbatim>\<open>io.Writer\<close> that a sink is expected to keep: \<^verbatim>\<open>Write\<close> returns a
  count between 0 and the length of what it was given.
\<close>

definition in_range :: "'s BufferWriter \<Rightarrow> bool" where
  "in_range b \<longleftrightarrow> 0 \<le> n b \<and> n b \<le> int (length (buf b))"

definition obeys_Writer :: "'s writer \<Rightarrow> bool" where
  "obeys_Writer W \<longleftrightarrow> (\<forall>s q. 0 \<le> fst (fst (W s q)) \<and> fst (fst (W s q)) \<le> int (length q))"

section \<open>Fixtures of the tests\<close>

text \<open>
  The sink of \<^verbatim>\<open>TestFileBufferWrite\<close> is a \<^verbatim>\<open>bytes.Buffer\<close>: its \<^verbatim>\<open>Write\<close>
  appends all the bytes and returns their number and a nil error.
\<close>

definition bytes_Buffer_Write :: "byte list writer" where
  "bytes_Buffer_Write s p = ((int (length p), None), s @ p)"

text \<open>
  Two sinks that fail: one accepts nothing, one accepts three bytes of each write (fewer
  when it is given fewer); both report an error, as a full disk does.
\<close>

definition failing_sink :: "byte list writer" where
  "failing_sink s p = ((0, Some (Err ''no space left on device'')), s)"

definition three_byte_sink :: "byte list writer" where
  "three_byte_sink s p =
     ((int (min 3 (length p)), Some (Err ''no space left on device'')), s @ take 3 p)"

text \<open>
  A model of the part of Go's standard library that the tests of rollout.go exercise, to
  run \<^verbatim>\<open>New\<close>, \<^verbatim>\<open>position\<close> and \<^verbatim>\<open>destination\<close> on the inputs of the tests. It
  is not code of the repository. It agrees with Go on:
  \<^item> times given by their Unix seconds and the offset of their zone;
  \<^item> layouts of \<^verbatim>\<open>Format\<close> made of the tokens \<^verbatim>\<open>2006\<close>, \<^verbatim>\<open>01\<close>, \<^verbatim>\<open>02\<close>,
    \<^verbatim>\<open>15\<close>, \<^verbatim>\<open>04\<close>, \<^verbatim>\<open>05\<close> and of the separators \<^verbatim>\<open>-\<close>, \<^verbatim>\<open>:\<close> and space,
    for the years 0 to 9999;
  \<^item> templates made of text and of actions that are a field \<^verbatim>\<open>{{.Name}}\<close> or a bare
    identifier \<^verbatim>\<open>{{Name}}\<close>. A bare identifier is a function call, and parsing fails
    when the function is not defined; \<^verbatim>\<open>New\<close> defines none. Every other action is
    outside this model, which rejects it;
  \<^item> \<^verbatim>\<open>filepath.Join\<close> with the separator \<^verbatim>\<open>/\<close>.
\<close>

record gotime =
  unixSec :: int
  zoneName :: string
  zoneOff :: int

definition digit :: "int \<Rightarrow> char" where
  "digit d = char_of (48 + d mod 10)"

definition pad2 :: "int \<Rightarrow> string" where
  "pad2 x = [digit (x div 10), digit x]"

definition pad4 :: "int \<Rightarrow> string" where
  "pad4 x = [digit (x div 1000), digit (x div 100), digit (x div 10), digit x]"

text \<open>The date of a day number (days since 1970-01-01) in the proleptic Gregorian calendar.\<close>

definition civil_from_days :: "int \<Rightarrow> int \<times> int \<times> int" where
  "civil_from_days z0 =
     (let z = z0 + 719468;
          era = z div 146097;
          doe = z mod 146097;
          yoe = (doe - doe div 1460 + doe div 36524 - doe div 146096) div 365;
          doy = doe - (365 * yoe + yoe div 4 - yoe div 100);
          mp = (5 * doy + 2) div 153;
          d = doy - (153 * mp + 2) div 5 + 1;
          m = (if mp < 10 then mp + 3 else mp - 9);
          y = yoe + era * 400 + (if m \<le> 2 then 1 else 0)
      in (y, m, d))"

text \<open>
  The layout is read from the left; \<open>skip\<close> counts the characters of a token that
  remain to be passed over.
\<close>

fun format_layout :: "gotime \<Rightarrow> nat \<Rightarrow> string \<Rightarrow> string" where
  "format_layout t skip [] = []"
| "format_layout t skip (c # cs) =
     (let secs = unixSec t + zoneOff t;
          ymd = civil_from_days (secs div 86400);
          sod = secs mod 86400
      in if 0 < skip then format_layout t (skip - 1) cs
         else if take 4 (c # cs) = ''2006'' then pad4 (fst ymd) @ format_layout t 3 cs
         else if take 2 (c # cs) = ''01'' then pad2 (fst (snd ymd)) @ format_layout t 1 cs
         else if take 2 (c # cs) = ''02'' then pad2 (snd (snd ymd)) @ format_layout t 1 cs
         else if take 2 (c # cs) = ''15'' then pad2 (sod div 3600) @ format_layout t 1 cs
         else if take 2 (c # cs) = ''04'' then pad2 (sod mod 3600 div 60) @ format_layout t 1 cs
         else if take 2 (c # cs) = ''05'' then pad2 (sod mod 60) @ format_layout t 1 cs
         else c # format_layout t 0 cs)"

definition go_Format :: "gotime \<Rightarrow> string \<Rightarrow> string" where
  "go_Format t layout = format_layout t 0 layout"

datatype node = TextNode string | FieldNode string

record gotemplate =
  tname :: string
  tree :: "node list option"

text \<open>
  The lexer: the text up to \<^verbatim>\<open>{{\<close>, then the action up to \<^verbatim>\<open>}}\<close>. A chunk is
  marked \<open>True\<close> when it is an action. \<open>None\<close>: an action is not closed.
\<close>

fun scan :: "bool \<Rightarrow> string \<Rightarrow> nat \<Rightarrow> string \<Rightarrow> (bool \<times> string) list option" where
  "scan in_action acc skip [] = (if in_action then None else Some [(False, rev acc)])"
| "scan in_action acc skip (c # cs) =
     (if 0 < skip then scan in_action acc (skip - 1) cs
      else if \<not> in_action \<and> take 2 (c # cs) = ''{{''
        then map_option ((#) (False, rev acc)) (scan True [] 1 cs)
      else if in_action \<and> take 2 (c # cs) = ''}}''
        then map_option ((#) (True, rev acc)) (scan False [] 1 cs)
      else scan in_action (c # acc) 0 cs)"

definition is_letter :: "char \<Rightarrow> bool" where
  "is_letter c = (let k = (of_char c :: nat)
                  in (97 \<le> k \<and> k \<le> 122) \<or> (65 \<le> k \<and> k \<le> 90) \<or> k = 95)"

definition is_digit :: "char \<Rightarrow> bool" where
  "is_digit c = (let k = (of_char c :: nat) in 48 \<le> k \<and> k \<le> 57)"

definition is_ident :: "string \<Rightarrow> bool" where
  "is_ident s = (case s of [] \<Rightarrow> False
                 | c # cs \<Rightarrow> is_letter c \<and> list_all (\<lambda>x. is_letter x \<or> is_digit x) cs)"

definition trim :: "string \<Rightarrow> string" where
  "trim s = rev (dropWhile (\<lambda>c. c = CHR '' '') (rev (dropWhile (\<lambda>c. c = CHR '' '') s)))"

text \<open>The words that Go's parser knows: its keywords, constants and builtin functions.\<close>

definition known_words :: "string list" where
  "known_words =
     [''if'', ''else'', ''end'', ''range'', ''with'', ''define'', ''template'', ''block'',
      ''break'', ''continue'', ''nil'', ''true'', ''false'',
      ''and'', ''call'', ''html'', ''index'', ''slice'', ''js'', ''len'', ''not'', ''or'',
      ''print'', ''printf'', ''println'', ''urlquery'', ''eq'', ''ge'', ''gt'', ''le'', ''lt'', ''ne'']"

definition parse_action :: "string \<Rightarrow> error + node" where
  "parse_action body =
     (let a = trim body
      in case a of
           [] \<Rightarrow> Inl (Err ''missing value for command'')
         | c # cs \<Rightarrow>
             if c = CHR ''.'' \<and> is_ident cs then Inr (FieldNode cs)
             else if is_ident a \<and> a \<notin> set known_words
               then Inl (Err (''function '' @ [CHR 0x22] @ a @ [CHR 0x22] @ '' not defined''))
             else Inl (Err ''action outside the model''))"

fun parse_chunks :: "(bool \<times> string) list \<Rightarrow> error + node list" where
  "parse_chunks [] = Inr []"
| "parse_chunks ((is_action, s) # rest) =
     (if is_action then
        (case parse_action s of
           Inl e \<Rightarrow> Inl e
         | Inr nd \<Rightarrow> map_sum id ((#) nd) (parse_chunks rest))
      else if s = [] then parse_chunks rest
      else map_sum id ((#) (TextNode s)) (parse_chunks rest))"

definition parse_template :: "string \<Rightarrow> error + node list" where
  "parse_template text =
     (case scan False [] 0 text of
        None \<Rightarrow> Inl (Err ''unclosed action'')
      | Some chunks \<Rightarrow> parse_chunks chunks)"

text \<open>
  \<^verbatim>\<open>Parse\<close> dereferences its receiver and returns a nil template with the error when
  the text does not parse. \<^verbatim>\<open>Execute\<close> dereferences its receiver, and writes nothing
  for a template that was never parsed.
\<close>

definition go_Parse :: "gotemplate option \<Rightarrow> string \<Rightarrow> fault + (gotemplate option \<times> error option)" where
  "go_Parse receiver text =
     (case receiver of
        None \<Rightarrow> Inl NilDeref
      | Some t \<Rightarrow>
          (case parse_template text of
             Inl e \<Rightarrow> Inr (None, Some e)
           | Inr nodes \<Rightarrow> Inr (Some (t\<lparr>tree := Some nodes\<rparr>), None)))"

fun decimal :: "nat \<Rightarrow> string" where
  "decimal k = (if k < 10 then [digit (int k)] else decimal (k div 10) @ [digit (int k)])"

declare decimal.simps [simp del]

definition print_value :: "tvalue \<Rightarrow> string" where
  "print_value v =
     (case v of
        StrVal s \<Rightarrow> s
      | IntVal i \<Rightarrow> (if i < 0 then CHR ''-'' # decimal (nat (- i)) else decimal (nat i)))"

definition render :: "(string \<times> tvalue) list \<Rightarrow> node \<Rightarrow> string" where
  "render data nd =
     (case nd of
        TextNode s \<Rightarrow> s
      | FieldNode f \<Rightarrow> (case map_of data f of None \<Rightarrow> ''<no value>'' | Some v \<Rightarrow> print_value v))"

definition go_Execute :: "gotemplate option \<Rightarrow> (string \<times> tvalue) list \<Rightarrow> fault + string" where
  "go_Execute receiver data =
     (case receiver of
        None \<Rightarrow> Inl NilDeref
      | Some t \<Rightarrow>
          (case tree t of
             None \<Rightarrow> Inr []
           | Some nodes \<Rightarrow> Inr (concat (map (render data) nodes))))"

text \<open>
  \<^verbatim>\<open>filepath.Join\<close>: the elements from the first non-empty one on, joined by
  \<^verbatim>\<open>/\<close> and cleaned. \<^verbatim>\<open>Clean\<close> drops empty and \<^verbatim>\<open>.\<close> elements and resolves
  \<^verbatim>\<open>..\<close> against the element before it.
\<close>

fun split_path :: "string \<Rightarrow> string \<Rightarrow> string list" where
  "split_path acc [] = [rev acc]"
| "split_path acc (c # cs) =
     (if c = CHR ''/'' then rev acc # split_path [] cs else split_path (c # acc) cs)"

fun clean_elems :: "bool \<Rightarrow> string list \<Rightarrow> string list \<Rightarrow> string list" where
  "clean_elems rooted out [] = rev out"
| "clean_elems rooted out (e # es) =
     (if e = [] \<or> e = ''.'' then clean_elems rooted out es
      else if e = ''..'' then
        (case out of
           [] \<Rightarrow> if rooted then clean_elems rooted out es else clean_elems rooted [e] es
         | e' # out' \<Rightarrow>
             if e' = ''..'' then clean_elems rooted (e # out) es
             else clean_elems rooted out' es)
      else clean_elems rooted (e # out) es)"

fun join_slash :: "string list \<Rightarrow> string" where
  "join_slash [] = []"
| "join_slash [e] = e"
| "join_slash (e # es) = e @ CHR ''/'' # join_slash es"

definition go_Clean :: "string \<Rightarrow> string" where
  "go_Clean path =
     (case path of
        [] \<Rightarrow> ''.''
      | c # cs \<Rightarrow>
          (let rooted = (c = CHR ''/'');
               out = join_slash (clean_elems rooted [] (split_path [] path))
           in if rooted then CHR ''/'' # out
              else if out = [] then ''.'' else out))"

definition go_Join :: "string list \<Rightarrow> string" where
  "go_Join elems =
     (case dropWhile (\<lambda>e. e = []) elems of
        [] \<Rightarrow> []
      | es \<Rightarrow> go_Clean (join_slash es))"

definition golib :: "string \<Rightarrow> int \<Rightarrow> (gotime, gotemplate) stdlib" where
  "golib h p =
     \<lparr>time_Unix = (\<lambda>t. word_of_int (unixSec t)),
      time_Zone = (\<lambda>t. (zoneName t, word_of_int (zoneOff t))),
      time_Format = go_Format,
      template_New = (\<lambda>nm. \<lparr>tname = nm, tree = None\<rparr>),
      template_Parse = go_Parse,
      template_Execute = go_Execute,
      filepath_Join = go_Join,
      host = h,
      pid = p\<rparr>"

text \<open>
  The mock of rollout\_test.go. \<^verbatim>\<open>MockBuffer\<close> records every call and returns
  \<^verbatim>\<open>(len(p), nil)\<close> or \<^verbatim>\<open>nil\<close>; \<^verbatim>\<open>NewMockBuffer\<close> makes a new one at each call
  (they are numbered here in the order of creation). The clock of
  \<^verbatim>\<open>TestRolloutWrite\<close> advances by one second at each call. The world is the time of
  the clock, the number of buffers made and the calls so far.
\<close>

datatype mock_call =
  CallNewMockBuffer string
  | CallWrite nat "byte list"
  | CallFlush nat
  | CallClose nat

record mock_world =
  now :: gotime
  made :: nat
  calls :: "mock_call list"

definition mock_env :: "(nat, gotime, mock_world) env" where
  "mock_env =
     \<lparr>clock = (\<lambda>w. (let t = (now w)\<lparr>unixSec := unixSec (now w) + 1\<rparr> in (t, w\<lparr>now := t\<rparr>))),
      bufferFunc = (\<lambda>dest sz ivl w.
         ((Some (made w), None),
          w\<lparr>made := Suc (made w), calls := calls w @ [CallNewMockBuffer dest]\<rparr>)),
      Buffer_Write = (\<lambda>b p w. ((int (length p), None), w\<lparr>calls := calls w @ [CallWrite b p]\<rparr>)),
      Buffer_Flush = (\<lambda>b w. (None, w\<lparr>calls := calls w @ [CallFlush b]\<rparr>)),
      Buffer_Close = (\<lambda>b w. (None, w\<lparr>calls := calls w @ [CallClose b]\<rparr>))\<rparr>"

text \<open>The factory of the second half of \<^verbatim>\<open>TestRolloutWrite\<close>, which always fails.\<close>

definition failing_env :: "(nat, gotime, mock_world) env" where
  "failing_env = mock_env\<lparr>bufferFunc := (\<lambda>dest sz ivl w. ((None, Some (Err ''test'')), w))\<rparr>"

text \<open>
  A factory that makes the first buffer and fails from then on, as a directory that
  becomes unwritable does.
\<close>

definition flaky_env :: "(nat, gotime, mock_world) env" where
  "flaky_env =
     mock_env\<lparr>bufferFunc := (\<lambda>dest sz ivl w.
        if made w = 0 then bufferFunc mock_env dest sz ivl w
        else ((None, Some (Err ''permission denied'')), w))\<rparr>"

text \<open>The library with a fixed host and process id, a time in UTC, and the first world.\<close>

definition test_lib :: "(gotime, gotemplate) stdlib" where
  "test_lib = golib ''0a1b'' 4711"

definition utc :: "int \<Rightarrow> gotime" where
  "utc s = \<lparr>unixSec = s, zoneName = ''UTC'', zoneOff = 0\<rparr>"

definition world0 :: mock_world where
  "world0 = \<lparr>now = utc 0, made = 0, calls = []\<rparr>"

text \<open>
  The timestamp of the specification's bucket formula, as an integer: the Unix seconds
  of \<open>t\<close>, plus the zone offset when the interval is at least one day of seconds.
\<close>

definition spec_adjusted_seconds :: "('t, 'tpl) stdlib \<Rightarrow> ('b, 'tpl) Rollout \<Rightarrow> 't \<Rightarrow> int" where
  "spec_adjusted_seconds L r t =
     sint (time_Unix L t) + (if 86400 \<le> sint (interval r) then sint (zoneOffset r) else 0)"

text \<open>
  The writer that \<^verbatim>\<open>New(Options{})\<close> returns in UTC (see \<open>New_defaults\<close> below):
  daily rotation, the default template and time format, no buffer yet.
\<close>

definition writer0 :: "(nat, gotemplate) Rollout" where
  "writer0 =
     \<lparr>bufferSize = 4096, flushInterval = 10000000000, interval = 86400, root = [],
      template = Some \<lparr>tname = ''package.rollout.filename'',
                        tree = Some [TextNode ''rollout-'', FieldNode ''Time'', TextNode ''.log'']\<rparr>,
      timeFormat = ''2006-01-02'', keeps = 0, zoneOffset = 0, Rollout.buf = None, closed = False\<rparr>"

text \<open>
  The loops of \<^verbatim>\<open>TestRolloutDestination\<close> and \<^verbatim>\<open>TestRolloutPosition\<close>: a writer
  is made from the options and asked for the destination, or the position, of a time.
\<close>

definition destination_of :: "Options \<Rightarrow> gotime \<Rightarrow> fault + string" where
  "destination_of opts t =
     (case New test_lib mock_env opts world0 of
        Inl f \<Rightarrow> Inl f
      | Inr (r, w) \<Rightarrow> destination test_lib r t)"

definition position_of :: "Options \<Rightarrow> gotime \<Rightarrow> fault + int64" where
  "position_of opts t =
     (case New test_lib mock_env opts world0 of
        Inl f \<Rightarrow> Inl f
      | Inr (r, w) \<Rightarrow> position test_lib r t)"

section \<open>The tests of the repository, run on the model\<close>

text \<open>
  The expectations of rollout\_test.go hold of the definitions above, with the model of
  the library and the mock: the cases of \<^verbatim>\<open>TestRolloutDestination\<close> and
  \<^verbatim>\<open>TestRolloutPosition\<close> whose times are in UTC (the dates of the tests are given by
  their Unix seconds), the failing factory of \<^verbatim>\<open>TestRolloutWrite\<close>, the defaults of
  \<^verbatim>\<open>TestNewRolloutDefaultOptions\<close>, and \<^verbatim>\<open>TestFileBufferFlush\<close>.
\<close>

lemma TestRolloutDestination_cases:
  "destination_of \<lparr>Template = ''test-{{.Time}}.log'', TimeFormat = ''2006-01-02'', Root = [],
       Rotation = 0, Keeps = 0, BufferSize = 0, Options.Flush = 0\<rparr> (utc 0)
     = Inr ''test-1970-01-01.log''"
  "destination_of \<lparr>Template = ''{{.Time}}.log'', TimeFormat = ''2006-01-02'', Root = ''/var/log'',
       Rotation = 0, Keeps = 0, BufferSize = 0, Options.Flush = 0\<rparr> (utc 0)
     = Inr ''/var/log/1970-01-01.log''"
  "destination_of \<lparr>Template = ''test-{{.Time}}.log'', TimeFormat = ''2006-01-02'', Root = ''/var/log'',
       Rotation = 0, Keeps = 0, BufferSize = 0, Options.Flush = 0\<rparr> (utc 1510409700)
     = Inr ''/var/log/test-2017-11-11.log''"
  "destination_of \<lparr>Template = ''test-{{.Time}}.log'', TimeFormat = ''2006-01-02 15:04'', Root = [],
       Rotation = 0, Keeps = 0, BufferSize = 0, Options.Flush = 0\<rparr> (utc 1510409700)
     = Inr ''test-2017-11-11 14:15.log''"
  by code_simp+

lemma TestRolloutPosition_cases:
  "position_of \<lparr>Template = [], TimeFormat = [], Root = [],
       Rotation = 1, Keeps = 0, BufferSize = 0, Options.Flush = 0\<rparr> (utc 0) = Inr 0"
  "position_of \<lparr>Template = [], TimeFormat = [], Root = [],
       Rotation = RotateMinutely, Keeps = 0, BufferSize = 0, Options.Flush = 0\<rparr> (utc 0) = Inr 0"
  "position_of \<lparr>Template = [], TimeFormat = [], Root = [],
       Rotation = RotateMinutely, Keeps = 0, BufferSize = 0, Options.Flush = 0\<rparr> (utc 1510409367)
     = Inr 25173489"
  "position_of \<lparr>Template = [], TimeFormat = [], Root = [],
       Rotation = RotateDaily, Keeps = 0, BufferSize = 0, Options.Flush = 0\<rparr> (utc 1510409367)
     = Inr 17481"
  "position_of \<lparr>Template = [], TimeFormat = [], Root = [],
       Rotation = RotateDaily, Keeps = 0, BufferSize = 0, Options.Flush = 0\<rparr> (utc 1511308800)
     = Inr 17492"
  by code_simp+

lemma TestRolloutWrite_failing_factory:
  "Rollout_Write test_lib failing_env writer0 ''any data'' world0
     = Inr (((0, Some (Err ''test'')), writer0), world0\<lparr>now := utc 1\<rparr>)"
  by code_simp

lemma TestNewRolloutDefaultOptions:
  "map_sum id (\<lambda>(r, w). (bufferSize r, interval r, flushInterval r, timeFormat r))
     (New test_lib mock_env \<lparr>Template = [], TimeFormat = [], Root = [],
        Rotation = 0, Keeps = 0, BufferSize = 0, Options.Flush = 0\<rparr> world0)
   = Inr (word_of_int defaultBufferSize, RotateDaily, 10 * 1000000000, defaultTimeFormat)"
  by code_simp

lemma TestFileBufferFlush:
  "BufferWriter_Write bytes_Buffer_Write (NewWriterSize [] 10) ''123456789''
     = Some (Inr ((9, None), \<lparr>err = None, buf = ''123456789'' @ [CHR 0x00], n = 9, wr = []\<rparr>))"
  "BufferWriter_Flush bytes_Buffer_Write \<lparr>err = None, buf = ''123456789'' @ [CHR 0x00], n = 9, wr = []\<rparr>
     = Inr (None, \<lparr>err = None, buf = ''123456789'' @ [CHR 0x00], n = 0, wr = ''123456789''\<rparr>)"
  by code_simp+

section \<open>BufferWriter: Flush\<close>

lemma Flush_latched: "err b = Some e0 \<Longrightarrow> BufferWriter_Flush W b = Inr (Some e0, b)"
  by (simp add: BufferWriter_Flush_def)

lemma Flush_empty: "err b = None \<Longrightarrow> n b = 0 \<Longrightarrow> BufferWriter_Flush W b = Inr (None, b)"
  by (simp add: BufferWriter_Flush_def)

lemma Flush_success:
  "err b = None \<Longrightarrow> 0 < n b \<Longrightarrow> n b \<le> int (length (buf b)) \<Longrightarrow>
   W (wr b) (take (nat (n b)) (buf b)) = ((k, None), s) \<Longrightarrow> n b \<le> k \<Longrightarrow>
   BufferWriter_Flush W b = Inr (None, b\<lparr>n := 0, wr := s\<rparr>)"
  by (simp add: BufferWriter_Flush_def)

lemma copy_at_compact:
  assumes "0 < k" "k < m" "m \<le> int (length xs)"
  shows "snd (copy_at xs 0 (take (nat (m - k)) (drop (nat k) xs))) =
         take (nat (m - k)) (drop (nat k) xs) @ drop (nat (m - k)) xs"
proof -
  have "length (take (nat (m - k)) (drop (nat k) xs)) = nat (m - k)"
    using assms by simp
  moreover have "nat (m - k) \<le> length xs"
    using assms by simp
  ultimately show ?thesis
    by (simp add: copy_at_def Let_def del: length_take length_drop)
qed

text \<open>What a failed flush leaves: the error, the buffer after the compaction, the count.\<close>

lemma Flush_failure:
  assumes "err b = None" "0 < n b" "n b \<le> int (length (buf b))"
    and W: "W (wr b) (take (nat (n b)) (buf b)) = ((k, e), s)"
    and f: "e \<noteq> None \<or> k < n b"
  shows "BufferWriter_Flush W b =
           Inr (Some (case e of None \<Rightarrow> ErrShortWrite | Some x \<Rightarrow> x),
                b\<lparr>err := Some (case e of None \<Rightarrow> ErrShortWrite | Some x \<Rightarrow> x),
                  buf := (if 0 < k \<and> k < n b
                          then take (nat (n b - k)) (drop (nat k) (buf b)) @ drop (nat (n b - k)) (buf b)
                          else buf b),
                  n := n b - k, wr := s\<rparr>)"
proof (cases e)
  case None
  with f have "k < n b" by simp
  with assms None show ?thesis
    by (simp add: BufferWriter_Flush_def Let_def copy_at_compact)
next
  case (Some x)
  with assms show ?thesis
    by (simp add: BufferWriter_Flush_def Let_def copy_at_compact)
qed

lemma compact_tail:
  "0 \<le> k \<Longrightarrow> k \<le> m \<Longrightarrow> m \<le> int (length xs) \<Longrightarrow>
   take (nat (m - k)) (if 0 < k \<and> k < m
                       then take (nat (m - k)) (drop (nat k) xs) @ drop (nat (m - k)) xs
                       else xs) = take (nat (m - k)) (drop (nat k) xs)"
  by (cases "k = 0"; cases "k = m") auto

lemma compact_length:
  "m \<le> int (length xs) \<Longrightarrow>
   length (if 0 < k \<and> k < m
           then take (nat (m - k)) (drop (nat k) xs) @ drop (nat (m - k)) xs
           else xs) = length xs"
  by auto

text \<open>
  C5. \<^verbatim>\<open>Flush\<close> on a writer \<open>b\<close> over any sink \<open>W\<close>:
  \<^item> a latched error is returned at once, and the writer and the sink are unchanged;
  \<^item> with no error and nothing held, it returns nil and changes nothing;
  \<^item> otherwise the held bytes \<open>buf[0:n]\<close> go to the sink, which answers \<open>(k, e)\<close>.
    When the sink reports no error and took all of them, the count is reset to 0 and nil
    is returned. Otherwise the call fails: with the sink's error, or with
    \<open>ErrShortWrite\<close> when the sink reported none; the error is latched and returned, the
    count becomes \<open>n - k\<close>, and (for a sink count within \<open>0..n\<close>) the first
    \<open>n - k\<close> bytes of the buffer are the bytes the sink did not take.
\<close>

theorem C5_Flush_semantics:
  "(err b = Some e0 \<longrightarrow> BufferWriter_Flush W b = Inr (Some e0, b))
   \<and> (err b = None \<and> n b = 0 \<longrightarrow> BufferWriter_Flush W b = Inr (None, b))
   \<and> (err b = None \<and> 0 < n b \<and> n b \<le> int (length (buf b))
        \<and> W (wr b) (take (nat (n b)) (buf b)) = ((k, e), s) \<longrightarrow>
       (if e = None \<and> n b \<le> k
        then BufferWriter_Flush W b = Inr (None, b\<lparr>n := 0, wr := s\<rparr>)
        else (\<exists>b'. BufferWriter_Flush W b
                      = Inr (Some (case e of None \<Rightarrow> ErrShortWrite | Some x \<Rightarrow> x), b')
                \<and> err b' = Some (case e of None \<Rightarrow> ErrShortWrite | Some x \<Rightarrow> x)
                \<and> n b' = n b - k \<and> wr b' = s
                \<and> length (buf b') = length (buf b)
                \<and> (0 \<le> k \<and> k \<le> n b \<longrightarrow>
                     take (nat (n b - k)) (buf b') = take (nat (n b - k)) (drop (nat k) (buf b))))))"
proof (intro conjI impI)
  assume "err b = Some e0"
  then show "BufferWriter_Flush W b = Inr (Some e0, b)"
    by (rule Flush_latched)
next
  assume "err b = None \<and> n b = 0"
  then show "BufferWriter_Flush W b = Inr (None, b)"
    by (simp add: Flush_empty)
next
  assume a: "err b = None \<and> 0 < n b \<and> n b \<le> int (length (buf b))
        \<and> W (wr b) (take (nat (n b)) (buf b)) = ((k, e), s)"
  show "if e = None \<and> n b \<le> k
        then BufferWriter_Flush W b = Inr (None, b\<lparr>n := 0, wr := s\<rparr>)
        else (\<exists>b'. BufferWriter_Flush W b
                      = Inr (Some (case e of None \<Rightarrow> ErrShortWrite | Some x \<Rightarrow> x), b')
                \<and> err b' = Some (case e of None \<Rightarrow> ErrShortWrite | Some x \<Rightarrow> x)
                \<and> n b' = n b - k \<and> wr b' = s
                \<and> length (buf b') = length (buf b)
                \<and> (0 \<le> k \<and> k \<le> n b \<longrightarrow>
                     take (nat (n b - k)) (buf b') = take (nat (n b - k)) (drop (nat k) (buf b))))"
  proof (cases "e = None \<and> n b \<le> k")
    case True
    with a show ?thesis
      by (simp add: Flush_success)
  next
    case False
    then have f: "e \<noteq> None \<or> k < n b" by auto
    have fl: "BufferWriter_Flush W b =
           Inr (Some (case e of None \<Rightarrow> ErrShortWrite | Some x \<Rightarrow> x),
                b\<lparr>err := Some (case e of None \<Rightarrow> ErrShortWrite | Some x \<Rightarrow> x),
                  buf := (if 0 < k \<and> k < n b
                          then take (nat (n b - k)) (drop (nat k) (buf b)) @ drop (nat (n b - k)) (buf b)
                          else buf b),
                  n := n b - k, wr := s\<rparr>)"
      using a f by (intro Flush_failure) simp_all
    have len: "n b \<le> int (length (buf b))" using a by simp
    show ?thesis
      using False
      by (simp only: if_False fl)
         (simp add: compact_tail [OF _ _ len] compact_length [OF len] del: length_take length_drop take_all_iff)
  qed
qed

theorem C5_Flush_semantics_witness:
  "BufferWriter_Flush three_byte_sink \<lparr>err = Some ErrShortWrite, buf = ''abcdefghij'', n = 4, wr = ''xy''\<rparr>
     = Inr (Some ErrShortWrite, \<lparr>err = Some ErrShortWrite, buf = ''abcdefghij'', n = 4, wr = ''xy''\<rparr>)
   \<and> BufferWriter_Flush three_byte_sink \<lparr>err = None, buf = ''abcdefghij'', n = 0, wr = ''xy''\<rparr>
     = Inr (None, \<lparr>err = None, buf = ''abcdefghij'', n = 0, wr = ''xy''\<rparr>)
   \<and> BufferWriter_Flush bytes_Buffer_Write \<lparr>err = None, buf = ''abcdefghij'', n = 4, wr = ''xy''\<rparr>
     = Inr (None, \<lparr>err = None, buf = ''abcdefghij'', n = 0, wr = ''xyabcd''\<rparr>)
   \<and> (\<exists>b'. BufferWriter_Flush three_byte_sink \<lparr>err = None, buf = ''abcdefghij'', n = 5, wr = ''xy''\<rparr>
              = Inr (Some (Err ''no space left on device''), b')
          \<and> err b' = Some (Err ''no space left on device'') \<and> n b' = 2 \<and> wr b' = ''xyabc''
          \<and> length (buf b') = length ''abcdefghij'' \<and> take 2 (buf b') = ''de'')"
proof (intro conjI)
  show "BufferWriter_Flush three_byte_sink \<lparr>err = Some ErrShortWrite, buf = ''abcdefghij'', n = 4, wr = ''xy''\<rparr>
     = Inr (Some ErrShortWrite, \<lparr>err = Some ErrShortWrite, buf = ''abcdefghij'', n = 4, wr = ''xy''\<rparr>)"
    using C5_Flush_semantics [where b = "\<lparr>err = Some ErrShortWrite, buf = ''abcdefghij'', n = 4, wr = ''xy''\<rparr>"
        and ?e0.0 = ErrShortWrite and W = three_byte_sink]
    by simp
  show "BufferWriter_Flush three_byte_sink \<lparr>err = None, buf = ''abcdefghij'', n = 0, wr = ''xy''\<rparr>
     = Inr (None, \<lparr>err = None, buf = ''abcdefghij'', n = 0, wr = ''xy''\<rparr>)"
    using C5_Flush_semantics [where b = "\<lparr>err = None, buf = ''abcdefghij'', n = 0, wr = ''xy''\<rparr>"
        and W = three_byte_sink]
    by simp
  show "BufferWriter_Flush bytes_Buffer_Write \<lparr>err = None, buf = ''abcdefghij'', n = 4, wr = ''xy''\<rparr>
     = Inr (None, \<lparr>err = None, buf = ''abcdefghij'', n = 0, wr = ''xyabcd''\<rparr>)"
    using C5_Flush_semantics [where b = "\<lparr>err = None, buf = ''abcdefghij'', n = 4, wr = ''xy''\<rparr>"
        and W = bytes_Buffer_Write and k = 4 and e = None and s = "''xyabcd''"]
    by (simp add: bytes_Buffer_Write_def)
  show "\<exists>b'. BufferWriter_Flush three_byte_sink \<lparr>err = None, buf = ''abcdefghij'', n = 5, wr = ''xy''\<rparr>
              = Inr (Some (Err ''no space left on device''), b')
          \<and> err b' = Some (Err ''no space left on device'') \<and> n b' = 2 \<and> wr b' = ''xyabc''
          \<and> length (buf b') = length ''abcdefghij'' \<and> take 2 (buf b') = ''de''"
    using C5_Flush_semantics [where b = "\<lparr>err = None, buf = ''abcdefghij'', n = 5, wr = ''xy''\<rparr>"
        and W = three_byte_sink and k = 3 and e = "Some (Err ''no space left on device'')"
        and s = "''xyabc''"]
    by (simp add: three_byte_sink_def)
qed

section \<open>BufferWriter: Write\<close>

text \<open>
  C8. On a writer with a latched error and a count within the buffer (as it is in every
  state that \<^verbatim>\<open>Write\<close> and \<^verbatim>\<open>Flush\<close> reach over a sink that keeps to the contract
  of \<^verbatim>\<open>io.Writer\<close>, see \<open>Write_in_range\<close> below), \<^verbatim>\<open>Write\<close> returns, whatever
  the sink \<open>W\<close> is: it copies \<open>min (len buf - n) (len p)\<close> bytes
  of the input behind the held bytes, advances the count by that number and returns it
  with a nil error. The sink \<open>wr\<close> and the latched error are unchanged.
\<close>

theorem C8_Write_latched:
  assumes "err b = Some e" and "0 \<le> n b" and "n b \<le> int (length (buf b))"
  shows "BufferWriter_Write W b p =
           Some (Inr ((int (min (length (buf b) - nat (n b)) (length p)), None),
                      b\<lparr>buf := take (nat (n b)) (buf b)
                                @ take (min (length (buf b) - nat (n b)) (length p)) p
                                @ drop (nat (n b) + min (length (buf b) - nat (n b)) (length p)) (buf b),
                        n := n b + int (min (length (buf b) - nat (n b)) (length p))\<rparr>))"
  using assms by (simp add: BufferWriter_Write_def copy_at_def Let_def)

theorem C8_Write_latched_witness:
  "BufferWriter_Write failing_sink
     \<lparr>err = Some ErrShortWrite, buf = ''abcdefghij'', n = 7, wr = ''xy''\<rparr> ''12345''
   = Some (Inr ((3, None), \<lparr>err = Some ErrShortWrite, buf = ''abcdefg123'', n = 10, wr = ''xy''\<rparr>))"
  using C8_Write_latched [where b = "\<lparr>err = Some ErrShortWrite, buf = ''abcdefghij'', n = 7, wr = ''xy''\<rparr>"
      and e = ErrShortWrite and W = failing_sink and p = "''12345''"]
  by simp

text \<open>The direct path.\<close>
lemma Write_direct:
  assumes "err b = None" "n b = 0" "length (buf b) < length p" "W (wr b) p = ((k, e), s)"
  shows "BufferWriter_Write W b p = Some (Inr ((k, e), b\<lparr>err := e, wr := s\<rparr>))"
  using assms by (simp add: BufferWriter_Write_def Available_def Buffered_def)

lemma Write_fits:
  assumes "0 \<le> n b" "int (length p) \<le> int (length (buf b)) - n b"
  shows "BufferWriter_Write W b p =
           Some (Inr ((int (length p), None),
                      b\<lparr>buf := take (nat (n b)) (buf b) @ p @ drop (nat (n b) + length p) (buf b),
                        n := n b + int (length p)\<rparr>))"
proof -
  have "min (length (buf b) - nat (n b)) (length p) = length p"
    using assms by linarith
  then show ?thesis using assms 
    by (simp add: BufferWriter_Write_def Available_def copy_at_def Let_def)
qed

text \<open>The loop over the error-free sink: all the bytes reach the sink, in order.\<close>

lemma Write_loop_Nil: "Write_loop W b [] k = Some (Inr (k, b))"
  by (subst Write_loop.simps) simp

lemma Write_loop_bytes_Buffer:
  assumes "err b = None" "0 \<le> n b" "n b \<le> int (length (buf b))" "0 < length (buf b)" "p \<noteq> []"
  shows "\<exists>b'. Write_loop bytes_Buffer_Write b p k = Some (Inr (k + int (length p), b'))
           \<and> err b' = None \<and> n b' = 0 \<and> length (buf b') = length (buf b)
           \<and> wr b' = wr b @ take (nat (n b)) (buf b) @ p"
  using assms
proof (induction "2 * length p + (if n b = int (length (buf b)) then 1 else 0)"
        arbitrary: b p k rule: less_induct)
  case less
  define m where "m = min (length (buf b) - nat (n b)) (length p)"
  define b1 where "b1 = b\<lparr>buf := take (nat (n b)) (buf b) @ take m p @ drop (nat (n b) + m) (buf b),
                         n := n b + int m\<rparr>"
  define b2 where "b2 = b1\<lparr>n := 0, wr := wr b @ take (nat (n b)) (buf b) @ take m p\<rparr>"
  have c: "copy_at (buf b) (nat (n b)) p = (m, buf b1)"
    by (simp add: copy_at_def Let_def m_def b1_def)
  have len1: "length (buf b1) = length (buf b)"
    using less.prems by (simp add: b1_def m_def)
  have lp: "0 < length p" using less.prems by simp
  have pos: "0 < n b1"
  proof (cases "n b = 0")
    case True
    then have "0 < m" using less.prems lp by (simp add: m_def)
    then show ?thesis using True by (simp add: b1_def)
  next
    case False
    then show ?thesis using less.prems by (simp add: b1_def)
  qed
  have mb: "m \<le> length p" "nat (n b) + m \<le> length (buf b)"
    using less.prems by (simp_all add: m_def)
  have n1: "nat (n b1) = nat (n b) + m" "n b1 \<le> int (length (buf b1))"
    using less.prems len1 mb by (simp_all add: b1_def nat_add_distrib)
  have tk: "take (nat (n b1)) (buf b1) = take (nat (n b)) (buf b) @ take m p"
    unfolding n1(1) using less.prems mb by (simp add: b1_def)
  have len2: "int (length (take (nat (n b)) (buf b) @ take m p)) = n b1"
    using less.prems mb by (simp add: b1_def)
  have W: "bytes_Buffer_Write (wr b1) (take (nat (n b1)) (buf b1))
            = ((n b1, None), wr b @ take (nat (n b)) (buf b) @ take m p)"
    by (simp only: tk bytes_Buffer_Write_def len2) (simp add: b1_def)
  have e1: "err b1 = None" using less.prems by (simp add: b1_def)
  have fl: "BufferWriter_Flush bytes_Buffer_Write b1 = Inr (None, b2)"
    using Flush_success [where W = bytes_Buffer_Write and b = b1 and k = "n b1", OF e1 pos n1(2) W]
    by (simp add: b2_def)
  have step: "Write_loop bytes_Buffer_Write b p k
                = Write_loop bytes_Buffer_Write b2 (drop m p) (k + int m)"
    using less.prems c fl
    by (subst Write_loop.simps) (simp add: b1_def)
  have b2f: "err b2 = None" "n b2 = 0" "length (buf b2) = length (buf b)"
    using less.prems len1 by (simp_all add: b2_def b1_def)
  show ?case
  proof (cases "drop m p = []")
    case True
    then have "m = length p" by (simp add: m_def)
    then show ?thesis
      using step True b2f by (simp add: Write_loop_Nil b2_def)
  next
    case False
    have "2 * length (drop m p) + (if n b2 = int (length (buf b2)) then 1 else 0)
            < 2 * length p + (if n b = int (length (buf b)) then 1 else 0)"
      using less.prems b2f by (auto simp: m_def)
    then have "\<exists>b'. Write_loop bytes_Buffer_Write b2 (drop m p) (k + int m)
                  = Some (Inr (k + int m + int (length (drop m p)), b'))
           \<and> err b' = None \<and> n b' = 0 \<and> length (buf b') = length (buf b2)
           \<and> wr b' = wr b2 @ take (nat (n b2)) (buf b2) @ drop m p"
      using b2f less.prems(4) False by (intro less.hyps) simp_all
    then obtain b' where b': "Write_loop bytes_Buffer_Write b2 (drop m p) (k + int m)
                  = Some (Inr (k + int m + int (length (drop m p)), b'))"
      "err b' = None" "n b' = 0" "length (buf b') = length (buf b2)"
      "wr b' = wr b2 @ take (nat (n b2)) (buf b2) @ drop m p"
      by blast
    have "k + int m + int (length (drop m p)) = k + int (length p)"
      by (simp add: m_def)
    moreover have "wr b2 @ take (nat (n b2)) (buf b2) @ drop m p = wr b @ take (nat (n b)) (buf b) @ p"
      by (simp add: b2_def)
    ultimately show ?thesis
      using step b' b2f by simp
  qed
qed

text \<open>
  Once an error is latched, \<^verbatim>\<open>Flush\<close> frees no room. When more input is left than
  the buffer has room for, the loop fills the buffer and then copies zero bytes for ever.
\<close>

lemma Write_loop_stuck:
  assumes "err b \<noteq> None" "0 \<le> n b" "n b \<le> int (length (buf b))"
    and "int (length p) > int (length (buf b)) - n b"
  shows "Write_loop W b p k = None"
proof -
  have "err b \<noteq> None \<and> 0 \<le> n b \<and> n b \<le> int (length (buf b))
          \<and> int (length p) > int (length (buf b)) - n b \<longrightarrow> False"
    if "Write_loop W b p k = Some y" for W b p k y
    using that
    apply (rule Write_loop.raw_induct [rotated, where P = "\<lambda>W b p k y. err b \<noteq> None \<and> 0 \<le> n b \<and> n b \<le> int (length (buf b))
          \<and> int (length p) > int (length (buf b)) - n b \<longrightarrow> False"])
    subgoal premises prems for loop W b p k y
    proof 
      assume a: "err b \<noteq> None \<and> 0 \<le> n b \<and> n b \<le> int (length (buf b))
          \<and> int (length p) > int (length (buf b)) - n b"
      then obtain e where e: "err b = Some e" by blast
      define m where "m = length (buf b) - nat (n b)"
      define b' where "b' = b\<lparr>buf := take (nat (n b)) (buf b) @ take m p @ drop (nat (n b) + m) (buf b), n := n b + int m\<rparr>"
      have mle: "min (length (buf b) - nat (n b)) (length p) = m"
        unfolding m_def using a by linarith
      have c: "copy_at (buf b) (nat (n b)) p = (m, buf b')"
        by (simp add: copy_at_def Let_def mle b'_def)
      have pne: "0 < length p" using a by auto
      have fl: "BufferWriter_Flush W b' = Inr (Some e, b')"
        by (rule Flush_latched) (simp add: b'_def e)
      have "loop W b' (drop m p) (k + int m) = Some y"
        using prems(2) a pne c fl by (simp add: b'_def)
      moreover have "err b' \<noteq> None \<and> 0 \<le> n b' \<and> n b' \<le> int (length (buf b'))
          \<and> int (length (drop m p)) > int (length (buf b')) - n b'"
        using a e by (auto simp: b'_def m_def)
      ultimately show False using prems(1) by blast
    qed
    done
  with assms have "Write_loop W b p k \<noteq> Some y" for y
    by blast
  then show ?thesis
    by (cases "Write_loop W b p k") blast+
qed


lemma Write_overflow_bytes_Buffer:
  assumes "err b = None" "0 < n b" "n b \<le> int (length (buf b))"
    and "int (length (buf b)) - n b < int (length p)"
  shows "\<exists>b'. BufferWriter_Write bytes_Buffer_Write b p = Some (Inr ((int (length p), None), b'))
           \<and> err b' = None \<and> n b' = 0 \<and> wr b' = wr b @ take (nat (n b)) (buf b) @ p"
proof -
  have "p \<noteq> []" "0 < length (buf b)" "0 \<le> n b"
    using assms by auto
  from Write_loop_bytes_Buffer [OF assms(1) this(3) assms(3) this(2) this(1), of 0]
  obtain b' where "Write_loop bytes_Buffer_Write b p 0 = Some (Inr (0 + int (length p), b'))"
    "err b' = None" "n b' = 0" "wr b' = wr b @ take (nat (n b)) (buf b) @ p"
    by blast
  then show ?thesis
    using assms by (simp add: BufferWriter_Write_def Available_def Buffered_def)
qed

text \<open>
  C6, as the code and its test \<^verbatim>\<open>TestFileBufferWrite\<close> have it. A writer of capacity 10
  over an empty error-free sink: after a write of 10 bytes the sink has 0 bytes; the next
  write of 5 bytes finds no room, flushes the 10 held bytes and then the 5 new ones, so
  the sink has 15 bytes; the write of 15 bytes finds the buffer empty and goes to the
  sink directly, which then has 30 bytes, the three inputs in order.
\<close>

theorem C6_scenario:
  assumes "length p1 = 10" and "length p2 = 5" and "length p3 = 15"
  shows "\<exists>b1 b2 b3.
           BufferWriter_Write bytes_Buffer_Write (NewWriterSize [] 10) p1 = Some (Inr ((10, None), b1))
         \<and> length (wr b1) = 0
         \<and> BufferWriter_Write bytes_Buffer_Write b1 p2 = Some (Inr ((5, None), b2))
         \<and> wr b2 = p1 @ p2 \<and> length (wr b2) = 15
         \<and> BufferWriter_Write bytes_Buffer_Write b2 p3 = Some (Inr ((15, None), b3))
         \<and> wr b3 = p1 @ p2 @ p3 \<and> length (wr b3) = 30"
proof -
  have 1: "BufferWriter_Write bytes_Buffer_Write (NewWriterSize [] 10) p1
             = Some (Inr ((10, None), \<lparr>err = None, buf = p1, n = 10, wr = []\<rparr>))"
    using assms(1)
    by (simp add: BufferWriter_Write_def NewWriterSize_def Available_def copy_at_def)
  have 2: "BufferWriter_Write bytes_Buffer_Write \<lparr>err = None, buf = p1, n = 10, wr = []\<rparr> p2
             = Some (Inr ((5, None), \<lparr>err = None, buf = p2 @ drop 5 p1, n = 0, wr = p1 @ p2\<rparr>))"
    using assms(1,2)
    by (simp add: BufferWriter_Write_def Available_def Buffered_def Write_loop.simps copy_at_def
          BufferWriter_Flush_def bytes_Buffer_Write_def)
  have 3: "BufferWriter_Write bytes_Buffer_Write
             \<lparr>err = None, buf = p2 @ drop 5 p1, n = 0, wr = p1 @ p2\<rparr> p3
             = Some (Inr ((15, None), \<lparr>err = None, buf = p2 @ drop 5 p1, n = 0, wr = p1 @ p2 @ p3\<rparr>))"
    using assms
    by (simp add: BufferWriter_Write_def Available_def Buffered_def bytes_Buffer_Write_def)
  show ?thesis
    using 1 2 3 assms by simp
qed

theorem C6_scenario_witness:
  "\<exists>b1 b2 b3.
     BufferWriter_Write bytes_Buffer_Write (NewWriterSize [] 10) ''1234567890'' = Some (Inr ((10, None), b1))
   \<and> length (wr b1) = 0
   \<and> BufferWriter_Write bytes_Buffer_Write b1 ''12345'' = Some (Inr ((5, None), b2))
   \<and> wr b2 = ''123456789012345'' \<and> length (wr b2) = 15
   \<and> BufferWriter_Write bytes_Buffer_Write b2 ''abcdefghijklmno'' = Some (Inr ((15, None), b3))
   \<and> wr b3 = ''123456789012345abcdefghijklmno'' \<and> length (wr b3) = 30"
  using C6_scenario [of "''1234567890''" "''12345''" "''abcdefghijklmno''"]
  by simp

text \<open>
  The claim C6 has the sink still empty after the second write. On the bytes of the test:
  the second write returns with 15 bytes in the sink.
\<close>

theorem C6_counterexample:
  "BufferWriter_Write bytes_Buffer_Write (NewWriterSize [] 10) ''1234567890''
     = Some (Inr ((10, None), \<lparr>err = None, buf = ''1234567890'', n = 10, wr = []\<rparr>))
   \<and> BufferWriter_Write bytes_Buffer_Write \<lparr>err = None, buf = ''1234567890'', n = 10, wr = []\<rparr> ''12345''
     = Some (Inr ((5, None), \<lparr>err = None, buf = ''1234567890'', n = 0, wr = ''123456789012345''\<rparr>))
   \<and> length (wr \<lparr>err = None, buf = ''1234567890'', n = 0, wr = ''123456789012345''\<rparr>) = 15"
  by (simp add: BufferWriter_Write_def NewWriterSize_def Available_def Buffered_def
        Write_loop.simps copy_at_def BufferWriter_Flush_def bytes_Buffer_Write_def)

text \<open>
  C1 at two inputs where a flush fails inside the loop. The writer holds 5 of 10 bytes
  and the sink takes three bytes and fails.
  \<^item> Input of 8 bytes: the first turn copies 5 bytes and the flush fails, leaving 7 bytes
    held; the loop does not stop: the second turn copies the other 3 bytes, and the call
    returns 8 with the error.
  \<^item> Input of 20 bytes: after the same two turns 12 bytes are left and the buffer is full;
    every later turn copies nothing, and the call never returns.
\<close>

theorem C1_Write_loop_ignores_flush_error:
  "BufferWriter_Write three_byte_sink \<lparr>err = None, buf = ''12345_____'', n = 5, wr = []\<rparr> ''abcdefgh''
     = Some (Inr ((8, Some (Err ''no space left on device'')),
                  \<lparr>err = Some (Err ''no space left on device''), buf = ''45abcdefgh'', n = 10,
                     wr = ''123''\<rparr>))
   \<and> BufferWriter_Write three_byte_sink \<lparr>err = None, buf = ''12345_____'', n = 5, wr = []\<rparr>
        ''abcdefghijklmnopqrst''
     = None"
proof
  show "BufferWriter_Write three_byte_sink \<lparr>err = None, buf = ''12345_____'', n = 5, wr = []\<rparr> ''abcdefgh''
     = Some (Inr ((8, Some (Err ''no space left on device'')),
                  \<lparr>err = Some (Err ''no space left on device''), buf = ''45abcdefgh'', n = 10,
                     wr = ''123''\<rparr>))"
    by (simp add: BufferWriter_Write_def Available_def Buffered_def Write_loop.simps copy_at_def
          BufferWriter_Flush_def three_byte_sink_def Let_def)
  have "Write_loop three_byte_sink \<lparr>err = None, buf = ''12345_____'', n = 5, wr = []\<rparr>
          ''abcdefghijklmnopqrst'' 0
        = Write_loop three_byte_sink
            \<lparr>err = Some (Err ''no space left on device''), buf = ''45abcde'' @ ''cde'', n = 7, wr = ''123''\<rparr>
            ''fghijklmnopqrst'' 5"
    by (subst Write_loop.simps)
       (simp add: copy_at_def BufferWriter_Flush_def three_byte_sink_def Let_def)
  also have "\<dots> = None"
    by (rule Write_loop_stuck) simp_all
  finally show "BufferWriter_Write three_byte_sink \<lparr>err = None, buf = ''12345_____'', n = 5, wr = []\<rparr>
        ''abcdefghijklmnopqrst'' = None"
    by (simp add: BufferWriter_Write_def Available_def Buffered_def)
qed

text \<open>
  C9 at the input the claim names: the buffer is full (10 of 10 bytes), no error is
  latched, and the sink fails after accepting zero bytes. A write of one byte copies
  nothing, the flush fails and frees no room, and every later turn of the loop does the
  same: the call never returns.
\<close>

theorem C9_Write_never_returns:
  "BufferWriter_Write failing_sink \<lparr>err = None, buf = ''1234567890'', n = 10, wr = []\<rparr> ''x'' = None"
proof -
  have "Write_loop failing_sink \<lparr>err = None, buf = ''1234567890'', n = 10, wr = []\<rparr> ''x'' 0
        = Write_loop failing_sink
            \<lparr>err = Some (Err ''no space left on device''), buf = ''1234567890'', n = 10, wr = []\<rparr>
            ''x'' 0"
    by (subst Write_loop.simps)
       (simp add: copy_at_def BufferWriter_Flush_def failing_sink_def Let_def)
  also have "\<dots> = None"
    by (rule Write_loop_stuck) simp_all
  finally show ?thesis
    by (simp add: BufferWriter_Write_def Available_def Buffered_def)
qed

section \<open>BufferWriter: the count stays within the buffer\<close>

text \<open>
  Over a sink that keeps to the contract of \<^verbatim>\<open>io.Writer\<close> (it returns a count between
  0 and the length of what it was given), the count \<open>n\<close> stays within the buffer: it
  is so after \<^verbatim>\<open>NewWriterSize\<close>, and \<^verbatim>\<open>Flush\<close> and \<^verbatim>\<open>Write\<close> keep it so and do
  not panic.
\<close>

lemma in_range_NewWriterSize: "in_range (NewWriterSize w sz)"
  by (simp add: in_range_def NewWriterSize_def Let_def defaultBufferSize_def)

lemma obeys_bytes_Buffer: "obeys_Writer bytes_Buffer_Write"
  by (simp add: obeys_Writer_def bytes_Buffer_Write_def)

lemma Flush_in_range:
  assumes "obeys_Writer W" "in_range b"
  shows "\<exists>e b'. BufferWriter_Flush W b = Inr (e, b') \<and> in_range b'
            \<and> length (buf b') = length (buf b)"
proof (cases "err b = None \<and> n b \<noteq> 0")
  case False
  then show ?thesis using assms(2) by (auto simp: BufferWriter_Flush_def)
next
  case True
  obtain k e s where W: "W (wr b) (take (nat (n b)) (buf b)) = ((k, e), s)"
    by (metis prod.exhaust)
  have r: "0 < n b" "n b \<le> int (length (buf b))"
    using True assms(2) by (simp_all add: in_range_def)
  have "int (length (take (nat (n b)) (buf b))) = n b"
    using r by simp
  moreover have "0 \<le> fst (fst (W (wr b) (take (nat (n b)) (buf b))))
           \<and> fst (fst (W (wr b) (take (nat (n b)) (buf b)))) \<le> int (length (take (nat (n b)) (buf b)))"
    using assms(1) unfolding obeys_Writer_def by blast
  ultimately have k: "0 \<le> k" "k \<le> n b"
    using W by simp_all
  show ?thesis
  proof (cases "e = None \<and> n b \<le> k")
    case True
    then have "BufferWriter_Flush W b = Inr (None, b\<lparr>n := 0, wr := s\<rparr>)"
      using Flush_success [where W = W and b = b and k = k and s = s]
        \<open>err b = None \<and> n b \<noteq> 0\<close> r W by simp
    then show ?thesis by (simp add: in_range_def)
  next
    case False
    then have f: "e \<noteq> None \<or> k < n b" by auto
    have e0: "err b = None" using True by simp
    show ?thesis
      using k r
      by (simp add: Flush_failure [where W = W and b = b and k = k and e = e and s = s, OF e0 r W f]
            in_range_def compact_length del: length_take length_drop)
  qed
qed

lemma Write_loop_in_range:
  assumes "Write_loop W b p k = Some y" "obeys_Writer W" "in_range b"
  shows "\<exists>k' b'. y = Inr (k', b') \<and> in_range b'"
proof -
  have "obeys_Writer W \<and> in_range b \<longrightarrow> (\<exists>k' b'. y = Inr (k', b') \<and> in_range b')"
    using assms(1)
    apply (rule Write_loop.raw_induct [rotated,
          where P = "\<lambda>W b p k y. obeys_Writer W \<and> in_range b \<longrightarrow> (\<exists>k' b'. y = Inr (k', b') \<and> in_range b')"])
    subgoal premises prems for loop W b p k y
    proof
      assume a: "obeys_Writer W \<and> in_range b"
      show "\<exists>k' b'. y = Inr (k', b') \<and> in_range b'"
      proof (cases "p = []")
        case True
        then show ?thesis using prems(2) a by auto
      next
        case False
        define m where "m = min (length (buf b) - nat (n b)) (length p)"
        define b1 where "b1 = b\<lparr>buf := take (nat (n b)) (buf b) @ take m p @ drop (nat (n b) + m) (buf b),
                               n := n b + int m\<rparr>"
        have c: "copy_at (buf b) (nat (n b)) p = (m, buf b1)"
          by (simp add: copy_at_def Let_def m_def b1_def)
        have r1: "in_range b1"
          using a by (auto simp: in_range_def b1_def m_def)
        from Flush_in_range [OF _ r1] a
        obtain e b2 where fl: "BufferWriter_Flush W b1 = Inr (e, b2)" "in_range b2"
          by blast
        have "loop W b2 (drop m p) (k + int m) = Some y"
          using prems(2) False a c fl(1) by (simp add: in_range_def b1_def)
        then show ?thesis
          using prems(1) a fl(2) by blast
      qed
    qed
    done
  then show ?thesis using assms by blast
qed

lemma Write_in_range:
  assumes "BufferWriter_Write W b p = Some y" "obeys_Writer W" "in_range b"
  shows "\<exists>res b'. y = Inr (res, b') \<and> in_range b'"
proof (cases "int (length p) > Available b \<and> err b = None")
  case False
  then show ?thesis
    using assms by (auto simp: BufferWriter_Write_def in_range_def copy_at_def Let_def)
next
  case True
  show ?thesis
  proof (cases "Buffered b = 0")
    case z: True
    then show ?thesis
      using assms True
      by (auto simp: BufferWriter_Write_def in_range_def split: prod.splits)
  next
    case nz: False
    then obtain y' where l: "Write_loop W b p 0 = Some y'"
      using assms(1) True by (auto simp: BufferWriter_Write_def split: option.splits)
    from Write_loop_in_range [OF l assms(2,3)]
    obtain k' b' where "y' = Inr (k', b')" "in_range b'" by blast
    then show ?thesis
      using assms(1) True nz l by (auto simp: BufferWriter_Write_def)
  qed
qed

section \<open>Rollout: the rotation bucket\<close>

lemma sint_RotateDaily: "sint RotateDaily = 86400"
  by (simp add: RotateDaily_def RotateHourly_def RotateMinutely_def RotateSecondly_def)

lemma sdiv_pos_divisor:
  "0 < d \<Longrightarrow> (a::int) sdiv d = (if 0 \<le> a then a div d else - ((- a) div d))"
  by (simp add: signed_divide_int_def sgn_if)

lemma int_div_le: "0 \<le> a \<Longrightarrow> 0 < d \<Longrightarrow> (a::int) div d \<le> a"
  by (metis div_by_1 int_one_le_iff_zero_less zdiv_mono2 zero_less_one)

lemma sdiv_bounds:
  assumes "0 < (d::int)" "- m \<le> a" "a < m"
  shows "- m \<le> a sdiv d \<and> a sdiv d < m"
proof (cases "0 \<le> a")
  case True
  then have "0 \<le> a div d" "a div d \<le> a"
    using assms(1) by (simp_all add: pos_imp_zdiv_nonneg_iff int_div_le)
  then show ?thesis using assms True by (simp add: sdiv_pos_divisor)
next
  case False
  then have "0 \<le> (- a) div d" "(- a) div d \<le> - a"
    using assms(1) by (simp_all add: pos_imp_zdiv_nonneg_iff int_div_le)
  then show ?thesis using assms False by (simp add: sdiv_pos_divisor)
qed

lemma go_quot_sint:
  assumes "0 < sint d"
  shows "\<exists>q. go_quot a d = Inr q \<and> sint q = sint a sdiv sint d"
proof -
  have d0: "d \<noteq> 0" using assms by auto
  have "- (2 ^ 63) \<le> sint a" "sint a < 2 ^ 63"
    using sint_ge [of a] sint_lt [of a] by simp_all
  then have "- (2 ^ 63) \<le> sint a sdiv sint d \<and> sint a sdiv sint d < 2 ^ 63"
    using assms by (intro sdiv_bounds) simp_all
  then have "sint (word_of_int (sint a sdiv sint d) :: int64) = sint a sdiv sint d"
    by (simp add: sint_sbintrunc' signed_take_bit_int_eq_self)
  then show ?thesis using d0 by (simp add: go_quot_def)
qed

text \<open>
  C2, as the code has it. For an interval \<open>i > 0\<close> and a timestamp whose adjustment
  does not overflow 64 bits, \<open>position\<close> returns the quotient of the adjusted timestamp
  (Unix seconds, plus the zone offset if and only if \<open>i\<close> is at least 86400) by
  \<open>i\<close>, truncated towards zero as Go's \<^verbatim>\<open>/\<close> does. That is the floor when the
  adjusted timestamp is not negative; for a negative one it is the negated floor of the
  negated timestamp. For a sub-day interval only the Unix seconds enter.
\<close>

theorem C2_position_truncates:
  assumes "0 < sint (interval r)"
    and "- (2 ^ 63) \<le> spec_adjusted_seconds L r t" and "spec_adjusted_seconds L r t < 2 ^ 63"
  shows "\<exists>q. position L r t = Inr q
           \<and> sint q = spec_adjusted_seconds L r t sdiv sint (interval r)
           \<and> (0 \<le> spec_adjusted_seconds L r t \<longrightarrow>
                  sint q = spec_adjusted_seconds L r t div sint (interval r))
           \<and> (spec_adjusted_seconds L r t < 0 \<longrightarrow>
                  sint q = - ((- spec_adjusted_seconds L r t) div sint (interval r)))
           \<and> (sint (interval r) < 86400 \<longrightarrow>
                  sint q = sint (time_Unix L t) sdiv sint (interval r))"
proof -
  define ts where "ts = (if RotateDaily \<le>s interval r then time_Unix L t + zoneOffset r else time_Unix L t)"
  have ts: "sint ts = spec_adjusted_seconds L r t"
  proof (cases "86400 \<le> sint (interval r)")
    case True
    then have "sint ts = signed_take_bit 63 (sint (time_Unix L t) + sint (zoneOffset r))"
      by (simp add: ts_def word_sle_eq sint_RotateDaily sint_word_add)
    also have "\<dots> = sint (time_Unix L t) + sint (zoneOffset r)"
      using assms(2,3) True
      by (intro signed_take_bit_int_eq_self) (simp_all add: spec_adjusted_seconds_def)
    finally show ?thesis using True by (simp add: spec_adjusted_seconds_def)
  next
    case False
    then show ?thesis
      by (simp add: ts_def word_sle_eq sint_RotateDaily spec_adjusted_seconds_def)
  qed
  obtain q where q: "go_quot ts (interval r) = Inr q" "sint q = sint ts sdiv sint (interval r)"
    using go_quot_sint [OF assms(1), of ts] by blast
  have "position L r t = Inr q"
    using q(1) by (simp add: position_def ts_def Let_def)
  moreover have "sint (interval r) < 86400 \<Longrightarrow> spec_adjusted_seconds L r t = sint (time_Unix L t)"
    by (simp add: spec_adjusted_seconds_def)
  ultimately show ?thesis
    using q(2) ts assms(1) by (auto simp: sdiv_pos_divisor)
qed

lemma New_defaults:
  "New test_lib mock_env
     \<lparr>Template = [], TimeFormat = [], Root = [], Rotation = 0, Keeps = 0, BufferSize = 0,
        Options.Flush = 0\<rparr> world0
   = Inr (writer0, world0\<lparr>now := utc 1\<rparr>)"
  by (simp add: New_def test_lib_def golib_def mock_env_def world0_def utc_def writer0_def
        defaultDestTamplate_def defaultTimeFormat_def defaultBufferSize_def defaultFlushInterval_def
        RotateDaily_def RotateHourly_def RotateMinutely_def RotateSecondly_def
        go_Parse_def parse_template_def parse_action_def trim_def is_ident_def is_letter_def is_digit_def known_words_def Let_def)

lemma adjusted_minutely:
  "spec_adjusted_seconds test_lib (writer0\<lparr>interval := 60\<rparr>) (utc s) = sint (word_of_int s :: int64)"
  by (simp add: spec_adjusted_seconds_def test_lib_def golib_def utc_def writer0_def)

theorem C2_position_truncates_witness:
  "(\<exists>q. position test_lib (writer0\<lparr>interval := 60\<rparr>) (utc 1510409367) = Inr q \<and> sint q = 25173489)
   \<and> (\<exists>q. position test_lib (writer0\<lparr>interval := 60\<rparr>) (utc (- 61)) = Inr q \<and> sint q = - 1)"
proof
  show "\<exists>q. position test_lib (writer0\<lparr>interval := 60\<rparr>) (utc 1510409367) = Inr q \<and> sint q = 25173489"
    using C2_position_truncates [of "writer0\<lparr>interval := 60\<rparr>" test_lib "utc 1510409367"]
    by (simp add: adjusted_minutely) (auto simp: writer0_def)
  show "\<exists>q. position test_lib (writer0\<lparr>interval := 60\<rparr>) (utc (- 61)) = Inr q \<and> sint q = - 1"
    using C2_position_truncates [of "writer0\<lparr>interval := 60\<rparr>" test_lib "utc (- 61)"]
    by (simp add: adjusted_minutely) (auto simp: writer0_def)
qed

text \<open>
  The claim C2 has the floor for times before the epoch too. One second before the epoch,
  with an interval of a minute: \<open>position\<close> is 0, the floor of \<open>-1 / 60\<close> is \<open>-1\<close>.
\<close>

theorem C2_counterexample:
  "position test_lib (writer0\<lparr>interval := 60\<rparr>) (utc (- 1)) = Inr 0
   \<and> spec_adjusted_seconds test_lib (writer0\<lparr>interval := 60\<rparr>) (utc (- 1)) div 60 = - 1"
  by (simp add: position_def go_quot_def spec_adjusted_seconds_def test_lib_def golib_def utc_def writer0_def
      word_sle_eq sint_RotateDaily signed_divide_int_def)

section \<open>Rollout: Write, Flush, Close\<close>

lemma Write_closed: "closed r \<Longrightarrow> Rollout_Write L E r p w = Inr (((0, Some ErrClosed), r), w)"
  by (simp add: Rollout_Write_def)

lemma Write_same_bucket:
  assumes "\<not> closed r" "clock E w = (t, w1)" "position L r t = Inr ps"
    and "Rollout.buf r = Some \<lparr>Buffer = Some ob, pos = ps\<rparr>"
  shows "Rollout_Write L E r p w
           = Inr ((fst (Buffer_Write E ob p w1), r), snd (Buffer_Write E ob p w1))"
  using assms by (simp add: Rollout_Write_def call_Write_def split: prod.splits)

lemma Write_factory_error:
  assumes "\<not> closed r" "clock E w = (t, w1)" "position L r t = Inr ps"
    and "Rollout.buf r = None \<or> pos (the (Rollout.buf r)) \<noteq> ps"
    and "destination L r t = Inr dest"
    and "bufferFunc E dest (bufferSize r) (flushInterval r) w1 = ((nb, Some e), w2)"
  shows "Rollout_Write L E r p w = Inr (((0, Some e), r), w2)"
  using assms by (auto simp: Rollout_Write_def)

lemma Write_first:
  assumes "\<not> closed r" "clock E w = (t, w1)" "position L r t = Inr ps"
    and "Rollout.buf r = None"
    and "destination L r t = Inr dest"
    and "bufferFunc E dest (bufferSize r) (flushInterval r) w1 = ((Some nb, None), w2)"
  shows "Rollout_Write L E r p w
           = Inr ((fst (Buffer_Write E nb p w2),
                   r\<lparr>Rollout.buf := Some \<lparr>Buffer = Some nb, pos = ps\<rparr>\<rparr>),
                  snd (Buffer_Write E nb p w2))"
  using assms by (simp add: Rollout_Write_def call_Write_def Let_def split: prod.splits)

lemma Write_rotates:
  assumes "\<not> closed r" "clock E w = (t, w1)" "position L r t = Inr ps"
    and "Rollout.buf r = Some \<lparr>Buffer = Some ob, pos = ps0\<rparr>" "ps0 \<noteq> ps"
    and "destination L r t = Inr dest"
    and "bufferFunc E dest (bufferSize r) (flushInterval r) w1 = ((Some nb, None), w2)"
  shows "Rollout_Write L E r p w
           = Inr ((fst (Buffer_Write E nb p (snd (Buffer_Close E ob w2))),
                   r\<lparr>Rollout.buf := Some \<lparr>Buffer = Some nb, pos = ps\<rparr>\<rparr>),
                  snd (Buffer_Write E nb p (snd (Buffer_Close E ob w2))))"
  using assms
  by (simp add: Rollout_Write_def call_Write_def call_Close_def Let_def split: prod.splits)

text \<open>
  C3, as the code has it. A write on an open writer reads the clock and computes the
  bucket \<open>ps\<close> of that time.
  \<^item> With a buffer made for another bucket, when the factory returns a buffer \<open>nb\<close>:
    the world goes through the factory call, then one \<^verbatim>\<open>Close\<close> of the old buffer,
    then the \<^verbatim>\<open>Write\<close> on \<open>nb\<close>, whose result is returned; \<open>nb\<close> with
    \<open>ps\<close> is the new \<open>buf\<close>.
  \<^item> With no buffer or one for another bucket, when the factory returns an error: the
    write returns 0 and that error, and the writer is unchanged, so the old buffer is
    still \<open>buf\<close>; no method of a buffer is called.
  \<^item> With a buffer made for \<open>ps\<close>: the write goes to that buffer, nothing is made
    or closed, and the writer is unchanged. So a buffer kept after a failed rotation is
    written to by a later write only when that write falls again into the buffer's own
    bucket; a write in another bucket calls the factory again.
\<close>

theorem C3_rotation_step:
  assumes "\<not> closed r" and "clock E w = (t, w1)" and "position L r t = Inr ps"
  shows
    "(Rollout.buf r = Some \<lparr>Buffer = Some ob, pos = ps0\<rparr> \<and> ps0 \<noteq> ps
        \<and> destination L r t = Inr dest
        \<and> bufferFunc E dest (bufferSize r) (flushInterval r) w1 = ((Some nb, None), w2) \<longrightarrow>
      Rollout_Write L E r p w
        = Inr ((fst (Buffer_Write E nb p (snd (Buffer_Close E ob w2))),
                r\<lparr>Rollout.buf := Some \<lparr>Buffer = Some nb, pos = ps\<rparr>\<rparr>),
               snd (Buffer_Write E nb p (snd (Buffer_Close E ob w2)))))
     \<and> ((Rollout.buf r = None \<or> pos (the (Rollout.buf r)) \<noteq> ps)
        \<and> destination L r t = Inr dest
        \<and> bufferFunc E dest (bufferSize r) (flushInterval r) w1 = ((nb', Some e), w2) \<longrightarrow>
      Rollout_Write L E r p w = Inr (((0, Some e), r), w2))
     \<and> (Rollout.buf r = Some \<lparr>Buffer = Some ob, pos = ps\<rparr> \<longrightarrow>
      Rollout_Write L E r p w
        = Inr ((fst (Buffer_Write E ob p w1), r), snd (Buffer_Write E ob p w1)))"
  using assms
  by (intro conjI impI)
     (simp_all add: Write_rotates Write_factory_error Write_same_bucket)

theorem C3_rotation_step_witness:
  "Rollout_Write test_lib mock_env
      (writer0\<lparr>interval := 1, Rollout.buf := Some \<lparr>Buffer = Some 0, pos = 2\<rparr>\<rparr>) ''any data''
      \<lparr>now = utc 2, made = 1,
         calls = [CallNewMockBuffer ''rollout-1970-01-01.log'', CallWrite 0 ''any data'']\<rparr>
    = Inr (((8, None), writer0\<lparr>interval := 1, Rollout.buf := Some \<lparr>Buffer = Some 1, pos = 3\<rparr>\<rparr>),
           \<lparr>now = utc 3, made = 2,
              calls = [CallNewMockBuffer ''rollout-1970-01-01.log'', CallWrite 0 ''any data'',
                       CallNewMockBuffer ''rollout-1970-01-01.log'', CallClose 0,
                       CallWrite 1 ''any data'']\<rparr>)"
proof -
  let ?r = "writer0\<lparr>interval := 1, Rollout.buf := Some \<lparr>Buffer = Some (0::nat), pos = 2\<rparr>\<rparr>"
  let ?w = "\<lparr>now = utc 2, made = 1,
              calls = [CallNewMockBuffer ''rollout-1970-01-01.log'', CallWrite 0 ''any data'']\<rparr>"
  let ?w2 = "\<lparr>now = utc 3, made = 2,
               calls = [CallNewMockBuffer ''rollout-1970-01-01.log'', CallWrite 0 ''any data'',
                        CallNewMockBuffer ''rollout-1970-01-01.log'']\<rparr>"
  have a: "\<not> closed ?r" by code_simp
  have b: "clock mock_env ?w = (utc 3, ?w\<lparr>now := utc 3\<rparr>)" by code_simp
  have c: "position test_lib ?r (utc 3) = Inr 3" by code_simp
  have d: "Rollout.buf ?r = Some \<lparr>Buffer = Some 0, pos = 2\<rparr> \<and> (2::int64) \<noteq> 3
             \<and> destination test_lib ?r (utc 3) = Inr ''rollout-1970-01-01.log''
             \<and> bufferFunc mock_env ''rollout-1970-01-01.log'' (bufferSize ?r) (flushInterval ?r)
                   (?w\<lparr>now := utc 3\<rparr>) = ((Some 1, None), ?w2)"
    by code_simp
  have "Rollout_Write test_lib mock_env ?r ''any data'' ?w
          = Inr ((fst (Buffer_Write mock_env 1 ''any data'' (snd (Buffer_Close mock_env 0 ?w2))),
                  ?r\<lparr>Rollout.buf := Some \<lparr>Buffer = Some 1, pos = 3\<rparr>\<rparr>),
                 snd (Buffer_Write mock_env 1 ''any data'' (snd (Buffer_Close mock_env 0 ?w2))))"
    using C3_rotation_step [OF a b c, THEN conjunct1, rule_format, OF d] .
  also have "\<dots> = Inr (((8, None), writer0\<lparr>interval := 1, Rollout.buf := Some \<lparr>Buffer = Some 1, pos = 3\<rparr>\<rparr>),
           \<lparr>now = utc 3, made = 2,
              calls = [CallNewMockBuffer ''rollout-1970-01-01.log'', CallWrite 0 ''any data'',
                       CallNewMockBuffer ''rollout-1970-01-01.log'', CallClose 0,
                       CallWrite 1 ''any data'']\<rparr>)"
    by code_simp
  finally show ?thesis .
qed

text \<open>
  The claim C3 has the previous buffer used by the writes that follow a failed rotation.
  With a factory that fails after the first buffer and the clock of the test (a new
  bucket at every call): the first write makes buffer 0 and writes to it; the second and
  the third write return 0 and the factory's error, and the calls recorded are still
  those of the first write: buffer 0 is kept, and not written to.
\<close>

theorem C3_counterexample:
  "Rollout_Write test_lib flaky_env (writer0\<lparr>interval := 1\<rparr>) ''any data''
      \<lparr>now = utc 1, made = 0, calls = []\<rparr>
    = Inr (((8, None), writer0\<lparr>interval := 1, Rollout.buf := Some \<lparr>Buffer = Some 0, pos = 2\<rparr>\<rparr>),
           \<lparr>now = utc 2, made = 1,
              calls = [CallNewMockBuffer ''rollout-1970-01-01.log'', CallWrite 0 ''any data'']\<rparr>)
   \<and> Rollout_Write test_lib flaky_env
        (writer0\<lparr>interval := 1, Rollout.buf := Some \<lparr>Buffer = Some 0, pos = 2\<rparr>\<rparr>) ''more data''
        \<lparr>now = utc 2, made = 1,
           calls = [CallNewMockBuffer ''rollout-1970-01-01.log'', CallWrite 0 ''any data'']\<rparr>
    = Inr (((0, Some (Err ''permission denied'')),
            writer0\<lparr>interval := 1, Rollout.buf := Some \<lparr>Buffer = Some 0, pos = 2\<rparr>\<rparr>),
           \<lparr>now = utc 3, made = 1,
              calls = [CallNewMockBuffer ''rollout-1970-01-01.log'', CallWrite 0 ''any data'']\<rparr>)
   \<and> Rollout_Write test_lib flaky_env
        (writer0\<lparr>interval := 1, Rollout.buf := Some \<lparr>Buffer = Some 0, pos = 2\<rparr>\<rparr>) ''more data''
        \<lparr>now = utc 3, made = 1,
           calls = [CallNewMockBuffer ''rollout-1970-01-01.log'', CallWrite 0 ''any data'']\<rparr>
    = Inr (((0, Some (Err ''permission denied'')),
            writer0\<lparr>interval := 1, Rollout.buf := Some \<lparr>Buffer = Some 0, pos = 2\<rparr>\<rparr>),
           \<lparr>now = utc 4, made = 1,
              calls = [CallNewMockBuffer ''rollout-1970-01-01.log'', CallWrite 0 ''any data'']\<rparr>)"
  by code_simp

lemma Close_first:
  assumes "\<not> closed r" "Rollout.buf r = Some \<lparr>Buffer = Some ob, pos = ps\<rparr>"
  shows "Rollout_Close E r w
           = Inr ((fst (Buffer_Close E ob w), r\<lparr>closed := True\<rparr>), snd (Buffer_Close E ob w))"
  using assms by (simp add: Rollout_Close_def call_Close_def Let_def split: prod.splits)

lemma Close_first_no_buffer:
  "\<not> closed r \<Longrightarrow> Rollout.buf r = None \<Longrightarrow> Rollout_Close E r w = Inr ((None, r\<lparr>closed := True\<rparr>), w)"
  by (simp add: Rollout_Close_def Let_def)

lemma Close_again: "closed r \<Longrightarrow> Rollout_Close E r w = Inr ((None, r), w)"
  by (simp add: Rollout_Close_def)

lemma Flush_no_buffer: "Rollout.buf r = None \<Longrightarrow> Rollout_Flush E r w = Inr ((None, r), w)"
  by (simp add: Rollout_Flush_def)

lemma Flush_delegates:
  "Rollout.buf r = Some \<lparr>Buffer = Some ob, pos = ps\<rparr> \<Longrightarrow>
   Rollout_Flush E r w = Inr ((fst (Buffer_Flush E ob w), r), snd (Buffer_Flush E ob w))"
  by (simp add: Rollout_Flush_def call_Flush_def split: prod.splits)

lemma Flush_keeps_writer: "Rollout_Flush E r w = Inr ((e, r'), w') \<Longrightarrow> r' = r"
  by (auto simp: Rollout_Flush_def call_Flush_def split: option.splits prod.splits)

text \<open>
  C4. On a writer \<open>r\<close> over any buffers:
  \<^item> the first \<^verbatim>\<open>Close\<close> sets \<open>closed\<close>; with a buffer it calls the buffer's
    \<^verbatim>\<open>Close\<close> once and returns its result, without one it returns nil and the world
    is unchanged;
  \<^item> on a closed writer, \<^verbatim>\<open>Close\<close> returns nil and \<^verbatim>\<open>Write\<close> returns 0 and
    \<open>ErrClosed\<close>; neither changes the writer or the world, so no method of the buffer
    is called, and the writer stays closed;
  \<^item> on a writer without a buffer (one that never wrote), \<^verbatim>\<open>Flush\<close> returns nil and
    changes nothing; \<^verbatim>\<open>Flush\<close> never changes the writer.
\<close>

theorem C4_close_lifecycle:
  "(\<not> closed r \<and> Rollout.buf r = Some \<lparr>Buffer = Some ob, pos = ps\<rparr> \<longrightarrow>
      Rollout_Close E r w
        = Inr ((fst (Buffer_Close E ob w), r\<lparr>closed := True\<rparr>), snd (Buffer_Close E ob w)))
   \<and> (\<not> closed r \<and> Rollout.buf r = None \<longrightarrow>
      Rollout_Close E r w = Inr ((None, r\<lparr>closed := True\<rparr>), w))
   \<and> (closed r \<longrightarrow> Rollout_Close E r w = Inr ((None, r), w))
   \<and> (closed r \<longrightarrow> Rollout_Write L E r p w = Inr (((0, Some ErrClosed), r), w))
   \<and> (Rollout.buf r = None \<longrightarrow> Rollout_Flush E r w = Inr ((None, r), w))
   \<and> (Rollout_Flush E r w = Inr ((e, r'), w') \<longrightarrow> r' = r)"
  by (intro conjI impI)
     (simp_all add: Close_first Close_first_no_buffer Close_again Write_closed Flush_no_buffer
        Flush_keeps_writer)

theorem C4_close_lifecycle_witness:
  "Rollout_Close mock_env (writer0\<lparr>Rollout.buf := Some \<lparr>Buffer = Some 0, pos = 0\<rparr>\<rparr>)
      \<lparr>now = utc 2, made = 1, calls = [CallNewMockBuffer ''rollout-1970-01-01.log'', CallWrite 0 ''any'']\<rparr>
    = Inr ((None, writer0\<lparr>Rollout.buf := Some \<lparr>Buffer = Some 0, pos = 0\<rparr>, closed := True\<rparr>),
           \<lparr>now = utc 2, made = 1,
              calls = [CallNewMockBuffer ''rollout-1970-01-01.log'', CallWrite 0 ''any'', CallClose 0]\<rparr>)
   \<and> Rollout_Close mock_env (writer0\<lparr>Rollout.buf := Some \<lparr>Buffer = Some 0, pos = 0\<rparr>, closed := True\<rparr>)
      \<lparr>now = utc 2, made = 1,
         calls = [CallNewMockBuffer ''rollout-1970-01-01.log'', CallWrite 0 ''any'', CallClose 0]\<rparr>
    = Inr ((None, writer0\<lparr>Rollout.buf := Some \<lparr>Buffer = Some 0, pos = 0\<rparr>, closed := True\<rparr>),
           \<lparr>now = utc 2, made = 1,
              calls = [CallNewMockBuffer ''rollout-1970-01-01.log'', CallWrite 0 ''any'', CallClose 0]\<rparr>)
   \<and> Rollout_Write test_lib mock_env
        (writer0\<lparr>Rollout.buf := Some \<lparr>Buffer = Some 0, pos = 0\<rparr>, closed := True\<rparr>) ''test data''
        \<lparr>now = utc 2, made = 1,
           calls = [CallNewMockBuffer ''rollout-1970-01-01.log'', CallWrite 0 ''any'', CallClose 0]\<rparr>
    = Inr (((0, Some ErrClosed),
            writer0\<lparr>Rollout.buf := Some \<lparr>Buffer = Some 0, pos = 0\<rparr>, closed := True\<rparr>),
           \<lparr>now = utc 2, made = 1,
              calls = [CallNewMockBuffer ''rollout-1970-01-01.log'', CallWrite 0 ''any'', CallClose 0]\<rparr>)
   \<and> Rollout_Flush mock_env writer0 world0 = Inr ((None, writer0), world0)
   \<and> Rollout_Close mock_env writer0 world0 = Inr ((None, writer0\<lparr>closed := True\<rparr>), world0)"
proof -
  let ?r = "writer0\<lparr>Rollout.buf := Some \<lparr>Buffer = Some (0::nat), pos = 0\<rparr>\<rparr>"
  let ?w = "\<lparr>now = utc 2, made = 1,
              calls = [CallNewMockBuffer ''rollout-1970-01-01.log'', CallWrite 0 ''any'']\<rparr>"
  let ?w' = "\<lparr>now = utc 2, made = 1,
               calls = [CallNewMockBuffer ''rollout-1970-01-01.log'', CallWrite 0 ''any'', CallClose 0]\<rparr>"
  have open_r: "\<not> closed ?r \<and> Rollout.buf ?r = Some \<lparr>Buffer = Some 0, pos = 0\<rparr>"
    by code_simp
  have closed_r: "closed (?r\<lparr>closed := True\<rparr>)"
    by code_simp
  have fresh: "\<not> closed writer0 \<and> Rollout.buf writer0 = None"
    by code_simp
  have cl: "fst (Buffer_Close mock_env 0 ?w) = None" "snd (Buffer_Close mock_env 0 ?w) = ?w'"
    by code_simp+
  have 1: "Rollout_Close mock_env ?r ?w = Inr ((None, ?r\<lparr>closed := True\<rparr>), ?w')"
    using C4_close_lifecycle [where r = ?r and E = mock_env and w = ?w and ob = 0 and ps = 0,
        THEN conjunct1, rule_format, OF open_r]
    by (simp only: cl)
  have 2: "Rollout_Close mock_env (?r\<lparr>closed := True\<rparr>) ?w' = Inr ((None, ?r\<lparr>closed := True\<rparr>), ?w')"
    using C4_close_lifecycle [where r = "?r\<lparr>closed := True\<rparr>" and E = mock_env and w = ?w',
        THEN conjunct2, THEN conjunct2, THEN conjunct1, rule_format, OF closed_r] .
  have 3: "Rollout_Write test_lib mock_env (?r\<lparr>closed := True\<rparr>) ''test data'' ?w'
             = Inr (((0, Some ErrClosed), ?r\<lparr>closed := True\<rparr>), ?w')"
    using C4_close_lifecycle [where r = "?r\<lparr>closed := True\<rparr>" and E = mock_env and w = ?w'
          and L = test_lib and p = "''test data''",
        THEN conjunct2, THEN conjunct2, THEN conjunct2, THEN conjunct1, rule_format, OF closed_r] .
  have 4: "Rollout_Flush mock_env writer0 world0 = Inr ((None, writer0), world0)"
    using C4_close_lifecycle [where r = writer0 and E = mock_env and w = world0,
        THEN conjunct2, THEN conjunct2, THEN conjunct2, THEN conjunct2, THEN conjunct1,
        rule_format, OF conjunct2 [OF fresh]] .
  have 5: "Rollout_Close mock_env writer0 world0 = Inr ((None, writer0\<lparr>closed := True\<rparr>), world0)"
    using C4_close_lifecycle [where r = writer0 and E = mock_env and w = world0,
        THEN conjunct2, THEN conjunct1, rule_format, OF fresh] .
  show ?thesis
    using 1 2 3 4 5 by simp
qed

text \<open>A write that returns a nil error leaves the writer with a buffer.\<close>

lemma Write_ok_has_buffer:
  assumes "Rollout_Write L E r p w = Inr (((k, None), r'), w')"
  shows "\<exists>ob ps. Rollout.buf r' = Some \<lparr>Buffer = Some ob, pos = ps\<rparr>"
proof -
  have nc: "\<not> closed r"
    using assms by (auto simp: Rollout_Write_def)
  obtain t w1 where cl: "clock E w = (t, w1)"
    by (cases "clock E w")
  obtain ps where ps: "position L r t = Inr ps"
    using assms nc cl by (cases "position L r t") (auto simp: Rollout_Write_def)
  show ?thesis
  proof (cases "Rollout.buf r = None \<or> pos (the (Rollout.buf r)) \<noteq> ps")
    case True
    then obtain dest where d: "destination L r t = Inr dest"
      using assms nc cl ps by (cases "destination L r t") (auto simp: Rollout_Write_def)
    obtain nb e w2 where f: "bufferFunc E dest (bufferSize r) (flushInterval r) w1 = ((nb, e), w2)"
      by (metis prod.exhaust)
    have e: "e = None"
      using assms nc cl ps True d f by (cases e) (auto simp: Rollout_Write_def)
    have "nb \<noteq> None"
      using assms nc cl ps True d f e
      by (auto simp: Rollout_Write_def Let_def call_Write_def call_Close_def
            split: option.splits sum.splits)
    then obtain b where nb: "nb = Some b" by blast
    have "r' = r\<lparr>Rollout.buf := Some \<lparr>Buffer = Some b, pos = ps\<rparr>\<rparr>"
      using assms nc cl ps True d f e nb
      by (auto simp: Rollout_Write_def Let_def call_Write_def call_Close_def
            split: option.splits sum.splits prod.splits)
    then show ?thesis by simp
  next
    case False
    then obtain rb where rb: "Rollout.buf r = Some rb" "pos rb = ps" by auto
    have "Buffer rb \<noteq> None" "r' = r"
      using assms nc cl ps rb
      by (auto simp: Rollout_Write_def call_Write_def split: option.splits prod.splits)
    then obtain b where "Buffer rb = Some b" by blast
    then have "rb = \<lparr>Buffer = Some b, pos = ps\<rparr>"
      using rb(2) by (cases rb) simp
    then show ?thesis using rb \<open>r' = r\<close> by simp
  qed
qed

text \<open>
  C10. \<^verbatim>\<open>Flush\<close> does not read \<open>closed\<close>: setting the flag to any value changes
  nothing in what \<^verbatim>\<open>Flush\<close> does. A write that returned no error has left a buffer;
  \<^verbatim>\<open>Close\<close> on an open writer with a buffer keeps the buffer in \<open>buf\<close>, and a
  \<^verbatim>\<open>Flush\<close> after it calls \<^verbatim>\<open>Flush\<close> of that closed buffer and returns its result,
  whatever it is.
\<close>

theorem C10_Flush_after_Close:
  "Rollout_Flush E (r\<lparr>closed := c\<rparr>) w
     = map_sum id (\<lambda>((e, r'), w'). ((e, r'\<lparr>closed := c\<rparr>), w')) (Rollout_Flush E r w)
   \<and> (Rollout_Write L E r0 p w0 = Inr (((k, None), r), w) \<longrightarrow>
        (\<exists>ob ps. Rollout.buf r = Some \<lparr>Buffer = Some ob, pos = ps\<rparr>))
   \<and> (\<not> closed r \<and> Rollout.buf r = Some \<lparr>Buffer = Some ob, pos = ps\<rparr> \<longrightarrow>
        Rollout_Close E r w
          = Inr ((fst (Buffer_Close E ob w), r\<lparr>closed := True\<rparr>), snd (Buffer_Close E ob w))
        \<and> Rollout.buf (r\<lparr>closed := True\<rparr>) = Rollout.buf r
        \<and> Rollout_Flush E (r\<lparr>closed := True\<rparr>) (snd (Buffer_Close E ob w))
          = Inr ((fst (Buffer_Flush E ob (snd (Buffer_Close E ob w))), r\<lparr>closed := True\<rparr>),
                 snd (Buffer_Flush E ob (snd (Buffer_Close E ob w)))))"
proof (intro conjI impI)
  show "Rollout_Flush E (r\<lparr>closed := c\<rparr>) w
     = map_sum id (\<lambda>((e, r'), w'). ((e, r'\<lparr>closed := c\<rparr>), w')) (Rollout_Flush E r w)"
    by (simp add: Rollout_Flush_def call_Flush_def split: option.splits prod.splits)
next
  assume "Rollout_Write L E r0 p w0 = Inr (((k, None), r), w)"
  then show "\<exists>ob ps. Rollout.buf r = Some \<lparr>Buffer = Some ob, pos = ps\<rparr>"
    by (rule Write_ok_has_buffer)
next
  assume a: "\<not> closed r \<and> Rollout.buf r = Some \<lparr>Buffer = Some ob, pos = ps\<rparr>"
  then show "Rollout_Close E r w
          = Inr ((fst (Buffer_Close E ob w), r\<lparr>closed := True\<rparr>), snd (Buffer_Close E ob w))"
    by (simp add: Close_first)
  show "Rollout.buf (r\<lparr>closed := True\<rparr>) = Rollout.buf r"
    by simp
  show "Rollout_Flush E (r\<lparr>closed := True\<rparr>) (snd (Buffer_Close E ob w))
          = Inr ((fst (Buffer_Flush E ob (snd (Buffer_Close E ob w))), r\<lparr>closed := True\<rparr>),
                 snd (Buffer_Flush E ob (snd (Buffer_Close E ob w))))"
    using a by (intro Flush_delegates) simp
qed

theorem C10_Flush_after_Close_witness:
  "Rollout_Close mock_env (writer0\<lparr>Rollout.buf := Some \<lparr>Buffer = Some 0, pos = 0\<rparr>\<rparr>)
      \<lparr>now = utc 2, made = 1, calls = [CallNewMockBuffer ''rollout-1970-01-01.log'', CallWrite 0 ''any'']\<rparr>
    = Inr ((None, writer0\<lparr>Rollout.buf := Some \<lparr>Buffer = Some 0, pos = 0\<rparr>, closed := True\<rparr>),
           \<lparr>now = utc 2, made = 1,
              calls = [CallNewMockBuffer ''rollout-1970-01-01.log'', CallWrite 0 ''any'', CallClose 0]\<rparr>)
   \<and> Rollout_Flush mock_env (writer0\<lparr>Rollout.buf := Some \<lparr>Buffer = Some 0, pos = 0\<rparr>, closed := True\<rparr>)
      \<lparr>now = utc 2, made = 1,
         calls = [CallNewMockBuffer ''rollout-1970-01-01.log'', CallWrite 0 ''any'', CallClose 0]\<rparr>
    = Inr ((None, writer0\<lparr>Rollout.buf := Some \<lparr>Buffer = Some 0, pos = 0\<rparr>, closed := True\<rparr>),
           \<lparr>now = utc 2, made = 1,
              calls = [CallNewMockBuffer ''rollout-1970-01-01.log'', CallWrite 0 ''any'', CallClose 0,
                       CallFlush 0]\<rparr>)"
proof -
  let ?r = "writer0\<lparr>Rollout.buf := Some \<lparr>Buffer = Some (0::nat), pos = 0\<rparr>\<rparr>"
  let ?w = "\<lparr>now = utc 2, made = 1,
              calls = [CallNewMockBuffer ''rollout-1970-01-01.log'', CallWrite 0 ''any'']\<rparr>"
  let ?w' = "\<lparr>now = utc 2, made = 1,
               calls = [CallNewMockBuffer ''rollout-1970-01-01.log'', CallWrite 0 ''any'', CallClose 0]\<rparr>"
  let ?w'' = "\<lparr>now = utc 2, made = 1,
                calls = [CallNewMockBuffer ''rollout-1970-01-01.log'', CallWrite 0 ''any'', CallClose 0,
                         CallFlush 0]\<rparr>"
  have open_r: "\<not> closed ?r \<and> Rollout.buf ?r = Some \<lparr>Buffer = Some 0, pos = 0\<rparr>"
    by code_simp
  have cl: "fst (Buffer_Close mock_env 0 ?w) = None" "snd (Buffer_Close mock_env 0 ?w) = ?w'"
    "fst (Buffer_Flush mock_env 0 ?w') = None" "snd (Buffer_Flush mock_env 0 ?w') = ?w''"
    by code_simp+
  have "Rollout_Close mock_env ?r ?w = Inr ((None, ?r\<lparr>closed := True\<rparr>), ?w')
        \<and> Rollout.buf (?r\<lparr>closed := True\<rparr>) = Rollout.buf ?r
        \<and> Rollout_Flush mock_env (?r\<lparr>closed := True\<rparr>) ?w' = Inr ((None, ?r\<lparr>closed := True\<rparr>), ?w'')"
    using C10_Flush_after_Close [where r = ?r and E = mock_env and w = ?w and ob = 0 and ps = 0,
        THEN conjunct2, THEN conjunct2, rule_format, OF open_r]
    by (simp only: cl)
  then show ?thesis by simp
qed

section \<open>Rollout: New and destination\<close>

text \<open>What \<^verbatim>\<open>New\<close> returns when the user's template parses.\<close>

lemma New_parsed:
  assumes "template_Parse L (Some (template_New L ''package.rollout.filename''))
             (if Template opts = [] then defaultDestTamplate else Template opts) = Inr (tpl, None)"
  shows "New L E opts w =
           Inr (\<lparr>bufferSize = (if BufferSize opts \<le>s 0 then word_of_int defaultBufferSize
                               else BufferSize opts),
                 flushInterval = (if Options.Flush opts \<le>s 0 then defaultFlushInterval
                                  else Options.Flush opts) * 1000000000,
                 interval = (if Rotation opts \<le>s 0 then RotateDaily else Rotation opts),
                 root = Root opts,
                 template = tpl,
                 timeFormat = (if TimeFormat opts = [] then defaultTimeFormat else TimeFormat opts),
                 keeps = Keeps opts,
                 zoneOffset = snd (time_Zone L (fst (clock E w))),
                 Rollout.buf = None,
                 closed = False\<rparr>, snd (clock E w))"
  using assms by (simp add: New_def Let_def split: prod.splits)

text \<open>
  When the user's template does not parse, the default template is parsed with the
  pointer that the failed \<^verbatim>\<open>Parse\<close> returned as the receiver, not with the template
  that \<^verbatim>\<open>template.New\<close> made.
\<close>

lemma New_fallback_receiver:
  assumes "template_Parse L (Some (template_New L ''package.rollout.filename''))
             (if Template opts = [] then defaultDestTamplate else Template opts) = Inr (tpl, Some e)"
    and "template_Parse L tpl defaultDestTamplate = Inl f"
  shows "New L E opts w = Inl f"
  using assms by (simp add: New_def Let_def)

text \<open>
  C7, as the code has it. When the user's template (the default one when it is empty)
  parses, \<^verbatim>\<open>New\<close> returns a writer, and for every time \<open>t\<close> its destination is
  \<open>Root\<close> joined to what the parsed template writes for the map of \<^verbatim>\<open>Pid\<close>,
  \<^verbatim>\<open>Host\<close> and \<^verbatim>\<open>Time\<close>, the time being \<open>t\<close> in the configured format (the
  default one when it is empty). With the template \<^verbatim>\<open>test-{{.Time}}.log\<close> of the
  repository's test (a field action), an empty root and the format \<^verbatim>\<open>2006-01-02\<close>, the
  destination at 1970-01-01T00:00:00Z is \<^verbatim>\<open>test-1970-01-01.log\<close>.
\<close>

theorem C7_destination_resolution:
  "(template_Parse L (Some (template_New L ''package.rollout.filename''))
        (if Template opts = [] then defaultDestTamplate else Template opts) = Inr (tpl, None) \<longrightarrow>
      (\<exists>r w'. New L E opts w = Inr (r, w')
         \<and> destination L r t =
             map_sum id (\<lambda>out. filepath_Join L [Root opts, out])
               (template_Execute L tpl
                  [(''Pid'', IntVal (pid L)), (''Host'', StrVal (host L)),
                   (''Time'', StrVal (time_Format L t
                       (if TimeFormat opts = [] then defaultTimeFormat else TimeFormat opts)))])))
   \<and> (\<exists>r w'. New test_lib mock_env
                 \<lparr>Template = ''test-{{.Time}}.log'', TimeFormat = ''2006-01-02'', Root = [],
                    Rotation = 0, Keeps = 0, BufferSize = 0, Options.Flush = 0\<rparr> world0 = Inr (r, w')
         \<and> destination test_lib r (utc 0) = Inr ''test-1970-01-01.log'')"
proof (intro conjI impI)
  assume a: "template_Parse L (Some (template_New L ''package.rollout.filename''))
        (if Template opts = [] then defaultDestTamplate else Template opts) = Inr (tpl, None)"
  show "\<exists>r w'. New L E opts w = Inr (r, w')
         \<and> destination L r t =
             map_sum id (\<lambda>out. filepath_Join L [Root opts, out])
               (template_Execute L tpl
                  [(''Pid'', IntVal (pid L)), (''Host'', StrVal (host L)),
                   (''Time'', StrVal (time_Format L t
                       (if TimeFormat opts = [] then defaultTimeFormat else TimeFormat opts)))])"
    unfolding New_parsed [OF a]
    by (simp add: destination_def split: sum.splits)
next
  have "New test_lib mock_env
                 \<lparr>Template = ''test-{{.Time}}.log'', TimeFormat = ''2006-01-02'', Root = [],
                    Rotation = 0, Keeps = 0, BufferSize = 0, Options.Flush = 0\<rparr> world0
     = Inr (writer0\<lparr>template := Some \<lparr>tname = ''package.rollout.filename'',
                        tree = Some [TextNode ''test-'', FieldNode ''Time'', TextNode ''.log'']\<rparr>\<rparr>,
            world0\<lparr>now := utc 1\<rparr>)"
    by code_simp
  moreover have "destination test_lib
      (writer0\<lparr>template := Some \<lparr>tname = ''package.rollout.filename'',
                        tree = Some [TextNode ''test-'', FieldNode ''Time'', TextNode ''.log'']\<rparr>\<rparr>)
      (utc 0) = Inr ''test-1970-01-01.log''"
    by code_simp
  ultimately show "\<exists>r w'. New test_lib mock_env
                 \<lparr>Template = ''test-{{.Time}}.log'', TimeFormat = ''2006-01-02'', Root = [],
                    Rotation = 0, Keeps = 0, BufferSize = 0, Options.Flush = 0\<rparr> world0 = Inr (r, w')
         \<and> destination test_lib r (utc 0) = Inr ''test-1970-01-01.log''"
    by blast
qed

theorem C7_destination_resolution_witness:
  "\<exists>r w'. New test_lib mock_env
             \<lparr>Template = ''{{.Time}}.log'', TimeFormat = ''2006-01-02'', Root = ''/var/log'',
                Rotation = 0, Keeps = 0, BufferSize = 0, Options.Flush = 0\<rparr> world0 = Inr (r, w')
     \<and> destination test_lib r (utc 0) = Inr ''/var/log/1970-01-01.log''"
proof -
  let ?opts = "\<lparr>Template = ''{{.Time}}.log'', TimeFormat = ''2006-01-02'', Root = ''/var/log'',
                Rotation = 0, Keeps = 0, BufferSize = 0, Options.Flush = 0\<rparr>"
  let ?tpl = "Some \<lparr>tname = ''package.rollout.filename'',
                     tree = Some [FieldNode ''Time'', TextNode ''.log'']\<rparr>"
  have p: "template_Parse test_lib (Some (template_New test_lib ''package.rollout.filename''))
        (if Template ?opts = [] then defaultDestTamplate else Template ?opts) = Inr (?tpl, None)"
    by code_simp
  have x: "map_sum id (\<lambda>out. filepath_Join test_lib [Root ?opts, out])
               (template_Execute test_lib ?tpl
                  [(''Pid'', IntVal (pid test_lib)), (''Host'', StrVal (host test_lib)),
                   (''Time'', StrVal (time_Format test_lib (utc 0)
                       (if TimeFormat ?opts = [] then defaultTimeFormat else TimeFormat ?opts)))])
           = Inr ''/var/log/1970-01-01.log''"
    by code_simp
  show ?thesis
    using C7_destination_resolution [where L = test_lib and opts = ?opts and tpl = ?tpl
        and E = mock_env and w = world0 and t = "utc 0", THEN conjunct1, rule_format, OF p]
    by (simp only: x)
qed

text \<open>
  The claim C7 on its own template, \<^verbatim>\<open>test-{{Time}}.log\<close>: an action that is a bare
  identifier is a call of a function, and no function \<^verbatim>\<open>Time\<close> is defined, so
  \<^verbatim>\<open>Parse\<close> fails and returns a nil template. \<^verbatim>\<open>New\<close> then parses the default
  template with that nil pointer as the receiver, which panics: no writer is made, and no
  destination \<^verbatim>\<open>test-1970-01-01.log\<close> is resolved.
\<close>

theorem C7_counterexample:
  "template_Parse test_lib (Some (template_New test_lib ''package.rollout.filename''))
      ''test-{{Time}}.log''
     = Inr (None, Some (Err (''function '' @ [CHR 0x22] @ ''Time'' @ [CHR 0x22] @ '' not defined'')))
   \<and> New test_lib mock_env
        \<lparr>Template = ''test-{{Time}}.log'', TimeFormat = ''2006-01-02'', Root = [],
           Rotation = 0, Keeps = 0, BufferSize = 0, Options.Flush = 0\<rparr> world0
     = Inl NilDeref"
  by code_simp

end
